theory Spec2Isabelle
  imports Complex_Main "HOL-Library.Sublist" "HOL-Library.Monad_Syntax" "HOL-Library.Log_Nat"
begin

section \<open>Data model\<close>

text \<open>
  A JavaScript string is a sequence of UTF-16 code units; \<open>length\<close> counts code units,
  as \<open>String.prototype.length\<close> does.  ASCII literals are written \<open>js ''...''\<close>.
\<close>

type_synonym jsstring = "nat list"

abbreviation js :: "string \<Rightarrow> jsstring" where
  "js s \<equiv> map of_char s"

text \<open>
  A JavaScript \<open>Date\<close> holds a time value: an integral number of milliseconds since
  the epoch, or \<open>NaN\<close> (an invalid date).
\<close>

datatype Date = TimeValue int | InvalidDate

text \<open>
  The relational operators on two \<open>Date\<close> objects compare the time values as numbers;
  every comparison with \<open>NaN\<close> is false.
\<close>

fun date_lt :: "Date \<Rightarrow> Date \<Rightarrow> bool" where
  "date_lt (TimeValue a) (TimeValue b) = (a < b)"
| "date_lt _ _ = False"

fun date_le :: "Date \<Rightarrow> Date \<Rightarrow> bool" where
  "date_le (TimeValue a) (TimeValue b) = (a \<le> b)"
| "date_le _ _ = False"

fun date_ge :: "Date \<Rightarrow> Date \<Rightarrow> bool" where
  "date_ge (TimeValue a) (TimeValue b) = (a \<ge> b)"
| "date_ge _ _ = False"

text \<open>\<open>src/lib/types.ts\<close>: interface \<open>Schedule\<close>.\<close>

record Schedule =
  productName :: jsstring
  environmentName :: jsstring
  startDateTime :: Date
  endDateTime :: Date
  personInChargeId :: jsstring
  personInChargeName :: jsstring
  remarks :: jsstring

section \<open>Time and schedule utilities (\<open>src/utils/date.ts\<close>)\<close>

definition isWithinTimeRange :: "Date \<Rightarrow> Date \<Rightarrow> Date \<Rightarrow> bool" where
  "isWithinTimeRange current start end' \<longleftrightarrow> date_ge current start \<and> date_lt current end'"

definition findActiveSchedules :: "Schedule list \<Rightarrow> Date \<Rightarrow> Schedule list" where
  "findActiveSchedules schedules currentTime =
     filter (\<lambda>schedule.
       isWithinTimeRange currentTime (startDateTime schedule) (endDateTime schedule)) schedules"

text \<open>
  \<open>findOverlappingSchedules\<close>: the two nested \<open>for\<close> loops, each as a recursive
  function over its index; \<open>overlaps\<close> is the array the loops push onto.
\<close>

function findOverlapping_inner ::
  "Schedule list \<Rightarrow> nat \<Rightarrow> nat \<Rightarrow> Schedule list list \<Rightarrow> Schedule list list" where
  "findOverlapping_inner schedules i j overlaps =
     (if j < length schedules then
        (let schedule1 = schedules ! i; schedule2 = schedules ! j in
         if environmentName schedule1 \<noteq> environmentName schedule2
         then findOverlapping_inner schedules i (j + 1) overlaps
         else if date_lt (startDateTime schedule1) (endDateTime schedule2) \<and>
                 date_lt (startDateTime schedule2) (endDateTime schedule1)
         then findOverlapping_inner schedules i (j + 1) (overlaps @ [[schedule1, schedule2]])
         else findOverlapping_inner schedules i (j + 1) overlaps)
      else overlaps)"
  by pat_completeness auto
termination
  by (relation "measure (\<lambda>(schedules, i, j, overlaps). length schedules - j)") auto

function findOverlapping_outer ::
  "Schedule list \<Rightarrow> nat \<Rightarrow> Schedule list list \<Rightarrow> Schedule list list" where
  "findOverlapping_outer schedules i overlaps =
     (if i < length schedules
      then findOverlapping_outer schedules (i + 1)
             (findOverlapping_inner schedules i (i + 1) overlaps)
      else overlaps)"
  by pat_completeness auto
termination
  by (relation "measure (\<lambda>(schedules, i, overlaps). length schedules - i)") auto

declare findOverlapping_inner.simps [simp del] findOverlapping_outer.simps [simp del]

definition findOverlappingSchedules :: "Schedule list \<Rightarrow> Schedule list list" where
  "findOverlappingSchedules schedules = findOverlapping_outer schedules 0 []"

text \<open>
  The overlap test in the words of the specification: same environment name, and
  \<open>A.start < B.end\<close> and \<open>B.start < A.end\<close>.
\<close>

definition overlapping :: "Schedule \<Rightarrow> Schedule \<Rightarrow> bool" where
  "overlapping A B \<longleftrightarrow>
     environmentName A = environmentName B \<and>
     date_lt (startDateTime A) (endDateTime B) \<and> date_lt (startDateTime B) (endDateTime A)"

text \<open>All index pairs \<open>(i, j)\<close> with \<open>i < j < n\<close>, in the order the loops visit them.\<close>

definition index_pairs :: "nat \<Rightarrow> (nat \<times> nat) list" where
  "index_pairs n = concat (map (\<lambda>i. map (Pair i) [i + 1..<n]) [0..<n])"

section \<open>Values of the JavaScript runtime and injected services\<close>

text \<open>
  A JavaScript number is an IEEE 754 double: \<open>Num r\<close> is the finite double of value
  \<open>r\<close> (the two zeros are both \<open>Num 0\<close>: \<open>||\<close>, \<open>*\<close>, \<open>-\<close>, \<open><\<close> and the conversion
  to a string, the only operations the program applies to a number, agree on them up to
  the sign of a zero), \<open>PosInf\<close> and \<open>NegInf\<close> are the infinities.

  \<open>roundToDouble\<close> is the rounding of an exact result to the nearest double, ties to
  the even significand: a double has 53 significant bits, so its last place is worth
  \<open>2 ^ (e - 52)\<close> for a value in \<open>[2 ^ e, 2 ^ (e + 1))\<close>, where \<open>e\<close> is never taken
  below \<open>-1022\<close> (gradual underflow); a result that rounds to \<open>2 ^ 1024\<close> or beyond
  is an infinity.  \<open>ilog2 x\<close> is the integer part of the binary logarithm of \<open>x > 0\<close>
  and \<open>pow2 q\<close> the power \<open>2 ^ q\<close> for an integer \<open>q\<close>.
\<close>

datatype number = Num real | PosInf | NegInf | NaN

definition pow2 :: "int \<Rightarrow> real" where
  "pow2 q = (if 0 \<le> q then 2 ^ nat q else 1 / 2 ^ nat (- q))"

definition ilog2 :: "real \<Rightarrow> int" where
  "ilog2 x = (if 1 \<le> x then bitlen \<lfloor>x\<rfloor> - 1 else - bitlen (\<lceil>1 / x\<rceil> - 1))"

definition roundTiesToEven :: "real \<Rightarrow> int" where
  "roundTiesToEven x =
     (let n = \<lfloor>x\<rfloor>; f = x - of_int n
      in if f < 1 / 2 then n else if 1 / 2 < f then n + 1 else if even n then n else n + 1)"

definition roundToDouble :: "real \<Rightarrow> number" where
  "roundToDouble x =
     (if x = 0 then Num 0
      else
        (let e = max (ilog2 \<bar>x\<bar>) (- 1022);
             ulp = pow2 (e - 52);
             r = of_int (roundTiesToEven (x / ulp)) * ulp
         in if pow2 1024 \<le> \<bar>r\<bar> then (if 0 < x then PosInf else NegInf) else Num r))"

text \<open>
  \<open>num_mul\<close> is \<open>*\<close>, \<open>num_sub\<close> is \<open>-\<close> and \<open>num_lt\<close> is \<open><\<close>.  An operation on
  \<open>NaN\<close> gives \<open>NaN\<close>, and so do zero times an infinity and the difference of two like
  infinities; a comparison with \<open>NaN\<close> is false.  \<open>inf_mul positive y\<close> is the product
  of the positive (negative) infinity and \<open>y\<close>.
\<close>

definition inf_mul :: "bool \<Rightarrow> number \<Rightarrow> number" where
  "inf_mul positive y =
     (case y of
        NaN \<Rightarrow> NaN
      | Num b \<Rightarrow> if b = 0 then NaN else if (0 < b) = positive then PosInf else NegInf
      | PosInf \<Rightarrow> if positive then PosInf else NegInf
      | NegInf \<Rightarrow> if positive then NegInf else PosInf)"

fun num_mul :: "number \<Rightarrow> number \<Rightarrow> number" where
  "num_mul (Num a) (Num b) = roundToDouble (a * b)"
| "num_mul (Num a) PosInf = inf_mul True (Num a)"
| "num_mul (Num a) NegInf = inf_mul False (Num a)"
| "num_mul (Num a) NaN = NaN"
| "num_mul PosInf y = inf_mul True y"
| "num_mul NegInf y = inf_mul False y"
| "num_mul NaN y = NaN"

fun num_sub :: "number \<Rightarrow> number \<Rightarrow> number" where
  "num_sub (Num a) (Num b) = roundToDouble (a - b)"
| "num_sub (Num a) PosInf = NegInf"
| "num_sub (Num a) NegInf = PosInf"
| "num_sub PosInf (Num b) = PosInf"
| "num_sub PosInf NegInf = PosInf"
| "num_sub NegInf (Num b) = NegInf"
| "num_sub NegInf PosInf = NegInf"
| "num_sub _ _ = NaN"

fun num_lt :: "number \<Rightarrow> number \<Rightarrow> bool" where
  "num_lt (Num a) (Num b) = (a < b)"
| "num_lt (Num a) PosInf = True"
| "num_lt NegInf (Num b) = True"
| "num_lt NegInf PosInf = True"
| "num_lt _ _ = False"

text \<open>
  \<open>src/utils/errors.ts\<close>: an \<open>Error\<close> has a message; a \<open>NetworkError\<close> an optional
  cause as well, a \<open>ValidationError\<close> an optional field name.
\<close>

datatype js_error =
    Error jsstring
  | NetworkError jsstring "js_error option"
  | ValidationError jsstring "jsstring option"

fun error_message :: "js_error \<Rightarrow> jsstring" where
  "error_message (Error m) = m"
| "error_message (NetworkError m c) = m"
| "error_message (ValidationError m f) = m"

text \<open>
  \<open>src/utils/result.ts\<close>: \<open>Result<T>\<close> is \<open>{ok: true, value}\<close> (\<open>Inr value\<close>) or
  \<open>{ok: false, error}\<close> (\<open>Inl error\<close>).
\<close>

type_synonym 'a Result = "js_error + 'a"

text \<open>
  Awaiting a promise yields the value it resolves with, or throws what it was rejected
  with: an \<open>Error\<close>, or any other value (the \<open>catch\<close> block tells them apart with
  \<open>instanceof Error\<close>).
\<close>

datatype thrown = ThrownError js_error | ThrownOther

datatype 'a promise = Rejects thrown | Resolves 'a

text \<open>
  \<open>Array.prototype.join\<close>, and \<open>[...new Set(xs)]\<close>: the distinct elements in the order
  of their first occurrence.
\<close>

fun join :: "jsstring \<Rightarrow> jsstring list \<Rightarrow> jsstring" where
  "join sep [] = []"
| "join sep [x] = x"
| "join sep (x # y # ys) = x @ sep @ join sep (y # ys)"

definition new_Set :: "'a list \<Rightarrow> 'a list" where
  "new_Set xs = fold (\<lambda>x acc. if x \<in> set acc then acc else acc @ [x]) xs []"

text \<open>
  \<open>v || d\<close> for an optional string and an optional number: \<open>d\<close> when \<open>v\<close> is
  \<open>undefined\<close> or falsy (the empty string; \<open>0\<close> and \<open>NaN\<close>).
\<close>

definition or_string :: "jsstring option \<Rightarrow> jsstring \<Rightarrow> jsstring" where
  "or_string v d = (case v of None \<Rightarrow> d | Some s \<Rightarrow> if s = [] then d else s)"

definition or_number :: "number option \<Rightarrow> number \<Rightarrow> number" where
  "or_number v d = (case v of None \<Rightarrow> d | Some n \<Rightarrow> if n = NaN \<or> n = Num 0 then d else n)"

text \<open>
  \<open>src/lib/slack.ts\<close>: \<open>MessageInfo\<close>, \<open>Reaction\<close> and \<open>UserInfo\<close> (whose fields
  \<open>id\<close> and \<open>name\<close> carry a suffix here, the plain names being taken).
\<close>

record MessageInfo =
  channel :: jsstring
  timestamp :: jsstring

record Reaction =
  name :: jsstring
  count :: nat
  users :: "jsstring list"

record UserInfo =
  id_u :: jsstring
  name_u :: jsstring

text \<open>
  The injected capabilities, \<open>SlackClient\<close> (\<open>src/lib/slack.ts\<close>), \<open>SheetsClient\<close>
  (\<open>src/lib/sheets.ts\<close>) and \<open>Services\<close>.  A call acts on the world outside the
  program: it takes the world \<open>'w\<close> and returns the outcome of the awaited promise
  together with the world it leaves.  Nothing is assumed about an implementation.
\<close>

record 'w SlackClient =
  postMessage :: "jsstring \<Rightarrow> jsstring \<Rightarrow> jsstring list \<Rightarrow> 'w \<Rightarrow> MessageInfo Result promise \<times> 'w"
  getReactions :: "jsstring \<Rightarrow> jsstring \<Rightarrow> 'w \<Rightarrow> Reaction list Result promise \<times> 'w"
  postThreadMessage :: "jsstring \<Rightarrow> jsstring \<Rightarrow> jsstring \<Rightarrow> 'w \<Rightarrow> MessageInfo Result promise \<times> 'w"
  getUserInfo :: "jsstring \<Rightarrow> 'w \<Rightarrow> UserInfo Result promise \<times> 'w"

record 'w SheetsClient =
  fetchSchedules :: "'w \<Rightarrow> Schedule list Result promise \<times> 'w"

record 'w Services =
  sheets :: "'w SheetsClient"
  slack :: "'w SlackClient"

text \<open>
  What the host provides: \<open>Date.now()\<close>, a whole number of milliseconds; \<open>await new
  Promise(resolve => setTimeout(resolve, ms))\<close> as \<open>sleep ms\<close>; the time zone database
  behind \<open>dayjs.tz\<close>, where \<open>utcOffset zone t\<close> is the offset of \<open>zone\<close> from UTC in
  minutes at the instant \<open>t\<close> and \<open>None\<close> for a zone that makes \<open>dayjs.tz\<close> throw; and
  the conversion of a number to a string in a template literal.  Calls of \<open>logger\<close>
  write to the console only and are left out.
\<close>

record 'w Host =
  dateNow :: "'w \<Rightarrow> int"
  sleep :: "int \<Rightarrow> 'w \<Rightarrow> 'w"
  utcOffset :: "jsstring \<Rightarrow> int \<Rightarrow> int option"
  numberToString :: "number \<Rightarrow> jsstring"

text \<open>
  \<open>src/services/release-checker.ts\<close>: \<open>ReleaseCheckConfig\<close> (its \<open>productName\<close>
  and \<open>environmentName\<close> with a suffix, the plain names being the fields of
  \<open>Schedule\<close>), \<open>ApprovalResult\<close> and \<open>ReleaseCheckResult\<close>.  An optional field is an
  \<open>option\<close>.
\<close>

record ReleaseCheckConfig =
  productName_c :: jsstring
  environmentName_c :: jsstring
  requesterUserId :: "jsstring option"
  waitMinutes :: "number option"
  approveReaction :: "jsstring option"
  rejectReaction :: "jsstring option"
  timezone :: "jsstring option"

datatype ApprovalStatus = a_approved | a_rejected | a_timeout

record ApprovalResult =
  status_a :: ApprovalStatus
  approvers_a :: "jsstring list option"

datatype ReleaseStatus = approved | rejected | timeout | no_schedule

record ReleaseCheckResult =
  status :: ReleaseStatus
  message :: jsstring
  approvers :: "jsstring list option"
  schedules :: "Schedule list option"

section \<open>The release check (\<open>src/services/release-checker.ts\<close>)\<close>

text \<open>
  \<open>getCurrentDateTime\<close> (\<open>src/utils/date.ts\<close>): the current instant shifted by the
  zone's offset; an unknown zone gives a \<open>ValidationError\<close>.  Its two reads of the
  clock (\<open>dayjs()\<close> and \<open>dayjs.utc()\<close>) are taken to see the same instant.
\<close>

definition getCurrentDateTime :: "'w Host \<Rightarrow> jsstring \<Rightarrow> 'w \<Rightarrow> Date Result" where
  "getCurrentDateTime host timezoneStr w =
     (case utcOffset host timezoneStr (dateNow host w) of
        None \<Rightarrow> Inl (ValidationError (js ''Invalid timezone: '' @ timezoneStr) (Some (js ''timezone'')))
      | Some offsetMinutes \<Rightarrow> Inr (TimeValue (dateNow host w + offsetMinutes * 60000)))"

text \<open>
  \<open>findRelevantSchedules\<close> and \<open>requestApproval\<close>.  In the message text a character
  outside ASCII is written as its UTF-16 code units (\<open>[55357, 56960]\<close> is the rocket,
  \<open>8226\<close> the bullet, \<open>10\<close> the line feed).
\<close>

definition findRelevantSchedules ::
  "Schedule list \<Rightarrow> jsstring \<Rightarrow> jsstring \<Rightarrow> Date \<Rightarrow> Schedule list" where
  "findRelevantSchedules schedules' productName' environmentName' currentTime =
     (let relevantSchedules =
        filter (\<lambda>schedule. productName schedule = productName' \<and>
                             environmentName schedule = environmentName') schedules'
      in findActiveSchedules relevantSchedules currentTime)"

definition requestApproval ::
  "'w Host \<Rightarrow> Schedule list \<Rightarrow> ReleaseCheckConfig \<Rightarrow> 'w SlackClient \<Rightarrow> jsstring \<Rightarrow> 'w
     \<Rightarrow> MessageInfo Result promise \<times> 'w" where
  "requestApproval host schedules' config slack' channelId w =
     (let personIds = new_Set (map personInChargeId schedules');
          scheduleList = join [10]
            (map (\<lambda>s. [8226] @ js '' '' @ productName s @ js '' ('' @ personInChargeName s @ js '')'')
               schedules');
          requesterLine =
            (case requesterUserId config of
               None \<Rightarrow> []
             | Some u \<Rightarrow> if u = [] then []
                 else [55357, 56420] @ js '' *Requested by:* <@'' @ u @ js ''>'' @ [10]);
          message' =
            [55357, 56960] @ js '' *Release Request*'' @ [10, 10] @
            [55357, 56550] @ js '' *Product:* '' @ productName_c config @ [10] @
            [55356, 57101] @ js '' *Environment:* '' @ environmentName_c config @ [10] @
            requesterLine @ [10] @
            [55357, 56517] @ js '' *Active Schedules:*'' @ [10] @
            scheduleList @ [10, 10] @
            replicate 26 9473 @ [10] @
            [9989] @ js '' React with :'' @ or_string (approveReaction config) (js ''ok'') @
              js '': to *approve*'' @ [10] @
            [10060] @ js '' React with :'' @ or_string (rejectReaction config) (js ''-1'') @
              js '': to *reject*'' @ [10] @
            [9200] @ js '' Timeout: '' @
              numberToString host (or_number (waitMinutes config) (Num 20)) @ js '' minutes''
      in postMessage slack' channelId message' personIds w)"

text \<open>
  \<open>waitForApproval\<close>.  \<open>decideTick\<close> is the body of the \<open>while\<close> loop from the point
  where \<open>getReactions\<close> has succeeded (lines 134 to 184): it returns \<open>Some result\<close>
  where the loop returns, \<open>None\<close> where control reaches the sleep at the end of the
  body, and \<open>Rejects\<close> where an awaited call throws.  \<open>waitLoop\<close> is the loop itself,
  with the start time and the timeout computed at entry as parameters; its condition
  \<open>Date.now() - startTime < timeoutMs\<close> is a subtraction and a comparison of doubles.
  Where the loop never ends its value is \<open>None\<close>.
\<close>

definition decideTick ::
  "'w SlackClient \<Rightarrow> jsstring \<Rightarrow> jsstring \<Rightarrow> jsstring list \<Rightarrow> jsstring \<Rightarrow> jsstring \<Rightarrow>
     Reaction list \<Rightarrow> 'w \<Rightarrow> ApprovalResult option promise \<times> 'w" where
  "decideTick slack' channelId messageTimestamp excludeUserIds approveReaction' rejectReaction'
       reactions w =
     (let rejections = filter (\<lambda>r. name r = rejectReaction') reactions;
          rejectors = filter (\<lambda>userId. userId \<notin> set excludeUserIds) (concat (map users rejections))
      in
      if length rejections > 0 \<and> length rejectors > 0 then
        (let firstRejector = hd rejectors in
         case getUserInfo slack' firstRejector w of
           (Rejects t, w1) \<Rightarrow> (Rejects t, w1)
         | (Resolves userInfoResult, w1) \<Rightarrow>
             (let userName = (case userInfoResult of Inr u \<Rightarrow> name_u u | Inl e \<Rightarrow> js ''Unknown User'') in
              case postThreadMessage slack' channelId messageTimestamp
                     ([10060] @ js '' <@'' @ firstRejector @ js ''> ('' @ userName @ js '') '' @
                      [12364, 25298, 21542, 12375, 12414, 12375, 12383]) w1 of
                (Rejects t, w2) \<Rightarrow> (Rejects t, w2)
              | (Resolves posted, w2) \<Rightarrow>
                  (Resolves (Some \<lparr>status_a = a_rejected, approvers_a = Some rejectors\<rparr>), w2)))
      else
        (let approvals = filter (\<lambda>r. name r = approveReaction') reactions;
             approvers' = filter (\<lambda>userId. userId \<notin> set excludeUserIds) (concat (map users approvals))
         in
         if length approvals > 0 \<and> length approvers' > 0 then
           (let firstApprover = hd approvers' in
            case getUserInfo slack' firstApprover w of
              (Rejects t, w1) \<Rightarrow> (Rejects t, w1)
            | (Resolves userInfoResult, w1) \<Rightarrow>
                (let userName = (case userInfoResult of Inr u \<Rightarrow> name_u u | Inl e \<Rightarrow> js ''Unknown User'') in
                 case postThreadMessage slack' channelId messageTimestamp
                        ([9989] @ js '' <@'' @ firstApprover @ js ''> ('' @ userName @ js '') '' @
                         [12364, 25215, 35469, 12375, 12414, 12375, 12383]) w1 of
                   (Rejects t, w2) \<Rightarrow> (Rejects t, w2)
                 | (Resolves posted, w2) \<Rightarrow>
                     (Resolves (Some \<lparr>status_a = a_approved, approvers_a = Some approvers'\<rparr>), w2)))
         else (Resolves None, w)))"

partial_function (option) waitLoop ::
  "'w Host \<Rightarrow> 'w SlackClient \<Rightarrow> jsstring \<Rightarrow> jsstring \<Rightarrow> jsstring list \<Rightarrow> jsstring \<Rightarrow> jsstring \<Rightarrow>
     number \<Rightarrow> int \<Rightarrow> int \<Rightarrow> 'w \<Rightarrow> (ApprovalResult promise \<times> 'w) option" where
  "waitLoop host slack' channelId messageTimestamp excludeUserIds approveReaction' rejectReaction'
       timeoutMs pollIntervalMs startTime w =
     (if num_lt (num_sub (Num (of_int (dateNow host w))) (Num (of_int startTime))) timeoutMs then
        (case getReactions slack' channelId messageTimestamp w of
           (Rejects t, w1) \<Rightarrow> Some (Rejects t, w1)
         | (Resolves (Inl e), w1) \<Rightarrow>
             waitLoop host slack' channelId messageTimestamp excludeUserIds approveReaction'
               rejectReaction' timeoutMs pollIntervalMs startTime (sleep host pollIntervalMs w1)
         | (Resolves (Inr reactions), w1) \<Rightarrow>
             (case decideTick slack' channelId messageTimestamp excludeUserIds approveReaction'
                     rejectReaction' reactions w1 of
                (Rejects t, w2) \<Rightarrow> Some (Rejects t, w2)
              | (Resolves (Some r), w2) \<Rightarrow> Some (Resolves r, w2)
              | (Resolves None, w2) \<Rightarrow>
                  waitLoop host slack' channelId messageTimestamp excludeUserIds approveReaction'
                    rejectReaction' timeoutMs pollIntervalMs startTime (sleep host pollIntervalMs w2)))
      else Some (Resolves \<lparr>status_a = a_timeout, approvers_a = None\<rparr>, w))"

declare waitLoop.simps [code]

definition waitForApproval ::
  "'w Host \<Rightarrow> 'w SlackClient \<Rightarrow> jsstring \<Rightarrow> jsstring \<Rightarrow> jsstring list \<Rightarrow> jsstring \<Rightarrow> jsstring \<Rightarrow>
     number \<Rightarrow> int \<Rightarrow> 'w \<Rightarrow> (ApprovalResult promise \<times> 'w) option" where
  "waitForApproval host slack' channelId messageTimestamp excludeUserIds approveReaction'
       rejectReaction' waitMinutes' pollIntervalMs w =
     (let timeoutMs = num_mul (num_mul waitMinutes' (Num 60)) (Num 1000);
          startTime = dateNow host w
      in waitLoop host slack' channelId messageTimestamp excludeUserIds approveReaction'
           rejectReaction' timeoutMs pollIntervalMs startTime w)"

text \<open>
  \<open>checkRelease\<close>.  \<open>caught\<close> is its \<open>catch\<close> block and \<open>approversText\<close> the
  expression \<open>approvers?.join(', ') || 'unknown'\<close>.  The whole body is inside the
  \<open>try\<close>, so \<open>checkRelease\<close> itself never throws; its value is \<open>None\<close> only where
  \<open>waitForApproval\<close> never returns.
\<close>

definition caught :: "thrown \<Rightarrow> 'a Result" where
  "caught t =
     (let message' = (case t of ThrownError e \<Rightarrow> error_message e
                            | ThrownOther \<Rightarrow> js ''Unknown error occurred'')
      in Inl (Error (js ''Release check failed: '' @ message')))"

definition approversText :: "jsstring list option \<Rightarrow> jsstring" where
  "approversText a =
     (case a of None \<Rightarrow> js ''unknown''
      | Some xs \<Rightarrow> (let joined = join (js '', '') xs in if joined = [] then js ''unknown'' else joined))"

definition checkRelease ::
  "'w Host \<Rightarrow> ReleaseCheckConfig \<Rightarrow> 'w Services \<Rightarrow> jsstring \<Rightarrow> 'w
     \<Rightarrow> (ReleaseCheckResult Result \<times> 'w) option" where
  "checkRelease host config services channelId w =
     (let timezone' = or_string (timezone config) (js ''Asia/Tokyo'');
          waitMinutes' = or_number (waitMinutes config) (Num 20);
          approveReaction' = or_string (approveReaction config) (js ''ok'');
          rejectReaction' = or_string (rejectReaction config) (js ''-1'')
      in
      case getCurrentDateTime host timezone' w of
        Inl e \<Rightarrow> Some (Inl e, w)
      | Inr currentTime \<Rightarrow>
          (case fetchSchedules (sheets services) w of
             (Rejects t, w1) \<Rightarrow> Some (caught t, w1)
           | (Resolves (Inl e), w1) \<Rightarrow>
               (case postMessage (slack services) channelId
                       ([9888, 65039] @ js '' Error occurred while checking schedules: '' @
                        error_message e @ [10] @ js ''Proceeding with release for availability.'')
                       [] w1 of
                  (Rejects t, w2) \<Rightarrow> Some (caught t, w2)
                | (Resolves posted, w2) \<Rightarrow>
                    Some (Inr \<lparr>status = approved,
                               message = js ''Release approved - proceeding due to error (availability-first policy)'',
                               approvers = None, schedules = None\<rparr>, w2))
           | (Resolves (Inr fetched), w1) \<Rightarrow>
               (let relevantSchedules =
                      findRelevantSchedules fetched (productName_c config)
                        (environmentName_c config) currentTime
                in
                if length relevantSchedules = 0 then
                  Some (Inr \<lparr>status = no_schedule,
                             message = js ''No active schedules found for '' @ productName_c config @
                               js '' in '' @ environmentName_c config @
                               js '' environment. Release approved.'',
                             approvers = None, schedules = Some []\<rparr>, w1)
                else
                  (case requestApproval host relevantSchedules config (slack services) channelId w1 of
                     (Rejects t, w2) \<Rightarrow> Some (caught t, w2)
                   | (Resolves (Inl e), w2) \<Rightarrow>
                       Some (Inl (NetworkError (js ''Failed to post approval request to Slack'')
                                    (Some e)), w2)
                   | (Resolves (Inr messageInfo), w2) \<Rightarrow>
                       (let excludeUserIds =
                              (case requesterUserId config of
                                 None \<Rightarrow> []
                               | Some u \<Rightarrow> if u = [] then [] else [u])
                        in
                        case waitForApproval host (slack services) channelId (timestamp messageInfo)
                               excludeUserIds approveReaction' rejectReaction' waitMinutes'
                               (15 * 1000) w2 of
                          None \<Rightarrow> None
                        | Some (Rejects t, w3) \<Rightarrow> Some (caught t, w3)
                        | Some (Resolves approvalResult, w3) \<Rightarrow>
                            Some (Inr \<lparr>status =
                                         (case status_a approvalResult of
                                            a_approved \<Rightarrow> approved
                                          | a_rejected \<Rightarrow> rejected
                                          | a_timeout \<Rightarrow> timeout),
                                       message =
                                         (case status_a approvalResult of
                                            a_approved \<Rightarrow> js ''Release approved by: '' @
                                              approversText (approvers_a approvalResult)
                                          | a_rejected \<Rightarrow> js ''Release rejected by: '' @
                                              approversText (approvers_a approvalResult)
                                          | a_timeout \<Rightarrow> js ''Release request timed out after '' @
                                              numberToString host waitMinutes' @
                                              js '' minutes. No response received.''),
                                       approvers = approvers_a approvalResult,
                                       schedules = Some relevantSchedules\<rparr>, w3))))))"

section \<open>Dates of the JavaScript runtime\<close>

text \<open>
  \<open>new Date(year, month, ...)\<close> and the getters of \<open>Date\<close>, after the ECMAScript
  standard (section "Date Objects"), whose abstract operations keep their names here.
  Time values and days are integers, so \<open>div\<close> is the standard's \<open>floor\<close> of a
  quotient.  The standard defines \<open>YearFromTime(t)\<close> as the largest \<open>y\<close> with
  \<open>TimeFromYear(y) <= t\<close>; \<open>YearFromDay\<close> computes it from an estimate by the mean
  length of a year, corrected by at most one (lemmas \<open>YearFromDay_spec\<close> and
  \<open>YearFromDay_unique\<close>).
\<close>

definition DaysInYear :: "int \<Rightarrow> int" where
  "DaysInYear y =
     (if y mod 4 \<noteq> 0 then 365 else if y mod 100 \<noteq> 0 then 366
      else if y mod 400 \<noteq> 0 then 365 else 366)"

definition DayFromYear :: "int \<Rightarrow> int" where
  "DayFromYear y =
     365 * (y - 1970) + (y - 1969) div 4 - (y - 1901) div 100 + (y - 1601) div 400"

definition YearFromDay :: "int \<Rightarrow> int" where
  "YearFromDay d =
     (let y = 1970 + (400 * d) div 146097 in
      if DayFromYear (y + 1) \<le> d then y + 1
      else if d < DayFromYear y then y - 1
      else y)"

definition Day :: "int \<Rightarrow> int" where
  "Day t = t div 86400000"

definition YearFromTime :: "int \<Rightarrow> int" where
  "YearFromTime t = YearFromDay (Day t)"

definition InLeapYear :: "int \<Rightarrow> int" where
  "InLeapYear t = (if DaysInYear (YearFromTime t) = 365 then 0 else 1)"

definition DayWithinYear :: "int \<Rightarrow> int" where
  "DayWithinYear t = Day t - DayFromYear (YearFromTime t)"

definition MonthFromTime :: "int \<Rightarrow> int" where
  "MonthFromTime t =
     (let d = DayWithinYear t; l = InLeapYear t in
      if d < 31 then 0
      else if d < 59 + l then 1
      else if d < 90 + l then 2
      else if d < 120 + l then 3
      else if d < 151 + l then 4
      else if d < 181 + l then 5
      else if d < 212 + l then 6
      else if d < 243 + l then 7
      else if d < 273 + l then 8
      else if d < 304 + l then 9
      else if d < 334 + l then 10
      else 11)"

definition DateFromTime :: "int \<Rightarrow> int" where
  "DateFromTime t =
     (let d = DayWithinYear t; l = InLeapYear t; m = MonthFromTime t in
      if m = 0 then d + 1
      else if m = 1 then d - 30
      else if m = 2 then d - 58 - l
      else if m = 3 then d - 89 - l
      else if m = 4 then d - 119 - l
      else if m = 5 then d - 150 - l
      else if m = 6 then d - 180 - l
      else if m = 7 then d - 211 - l
      else if m = 8 then d - 242 - l
      else if m = 9 then d - 272 - l
      else if m = 10 then d - 303 - l
      else d - 333 - l)"

definition HourFromTime :: "int \<Rightarrow> int" where
  "HourFromTime t = (t div 3600000) mod 24"

definition MinFromTime :: "int \<Rightarrow> int" where
  "MinFromTime t = (t div 60000) mod 60"

definition SecFromTime :: "int \<Rightarrow> int" where
  "SecFromTime t = (t div 1000) mod 60"

text \<open>
  \<open>MakeTime\<close>, \<open>MakeDay\<close> and \<open>MakeDate\<close>.  For \<open>MakeDay\<close> the standard asks for
  the day number of the first day of month \<open>mn\<close> of year \<open>ym\<close>; \<open>monthStart\<close> is the
  offset of that day within its year (lemma \<open>civil_roundtrip\<close>).
\<close>

definition MakeTime :: "int \<Rightarrow> int \<Rightarrow> int \<Rightarrow> int \<Rightarrow> int" where
  "MakeTime hour min' sec ms = hour * 3600000 + min' * 60000 + sec * 1000 + ms"

definition monthStart :: "int \<Rightarrow> int \<Rightarrow> int" where
  "monthStart mn l =
     (if mn = 0 then 0
      else if mn = 1 then 31
      else if mn = 2 then 59 + l
      else if mn = 3 then 90 + l
      else if mn = 4 then 120 + l
      else if mn = 5 then 151 + l
      else if mn = 6 then 181 + l
      else if mn = 7 then 212 + l
      else if mn = 8 then 243 + l
      else if mn = 9 then 273 + l
      else if mn = 10 then 304 + l
      else 334 + l)"

definition MakeDay :: "int \<Rightarrow> int \<Rightarrow> int \<Rightarrow> int" where
  "MakeDay year month date =
     (let ym = year + month div 12;
          mn = month mod 12
      in DayFromYear ym + monthStart mn (if DaysInYear ym = 365 then 0 else 1) + date - 1)"

definition MakeDate :: "int \<Rightarrow> int \<Rightarrow> int" where
  "MakeDate day time = day * 86400000 + time"

text \<open>
  The length of month \<open>m\<close> (1 to 12) of year \<open>y\<close> in the Gregorian calendar.
\<close>

definition DaysInMonth :: "int \<Rightarrow> int \<Rightarrow> int" where
  "DaysInMonth y m =
     (if m = 2 then (if DaysInYear y = 366 then 29 else 28)
      else if m = 4 \<or> m = 6 \<or> m = 9 \<or> m = 11 then 30 else 31)"

text \<open>
  The host's local time zone is the standard's \<open>LocalTZA(t, isUTC)\<close>, a parameter
  here: the offset of local time from UTC in milliseconds, at the UTC time value \<open>t\<close>
  when \<open>isUTC\<close> holds and at the local time value \<open>t\<close> otherwise.  The constructor
  reads its arguments as local time, maps a year from 0 to 99 to 1900 to 1999, and gives
  an invalid date outside the range of time values; a getter of an invalid date is
  \<open>NaN\<close>, here \<open>None\<close>.
\<close>

type_synonym LocalTZA = "int \<Rightarrow> bool \<Rightarrow> int"

definition LocalTime :: "LocalTZA \<Rightarrow> int \<Rightarrow> int" where
  "LocalTime tza t = t + tza t True"

definition UTC :: "LocalTZA \<Rightarrow> int \<Rightarrow> int" where
  "UTC tza t = t - tza t False"

definition TimeClip :: "int \<Rightarrow> Date" where
  "TimeClip t = (if \<bar>t\<bar> > 8640000000000000 then InvalidDate else TimeValue t)"

definition new_Date :: "LocalTZA \<Rightarrow> int \<Rightarrow> int \<Rightarrow> int \<Rightarrow> int \<Rightarrow> int \<Rightarrow> int \<Rightarrow> Date" where
  "new_Date tza year month date hours minutes seconds =
     (let yr = (if 0 \<le> year \<and> year \<le> 99 then 1900 + year else year);
          finalDate = MakeDate (MakeDay yr month date) (MakeTime hours minutes seconds 0)
      in TimeClip (UTC tza finalDate))"

fun getFullYear :: "LocalTZA \<Rightarrow> Date \<Rightarrow> int option" where
  "getFullYear tza (TimeValue t) = Some (YearFromTime (LocalTime tza t))"
| "getFullYear tza InvalidDate = None"

fun getMonth :: "LocalTZA \<Rightarrow> Date \<Rightarrow> int option" where
  "getMonth tza (TimeValue t) = Some (MonthFromTime (LocalTime tza t))"
| "getMonth tza InvalidDate = None"

fun getDate :: "LocalTZA \<Rightarrow> Date \<Rightarrow> int option" where
  "getDate tza (TimeValue t) = Some (DateFromTime (LocalTime tza t))"
| "getDate tza InvalidDate = None"

fun getHours :: "LocalTZA \<Rightarrow> Date \<Rightarrow> int option" where
  "getHours tza (TimeValue t) = Some (HourFromTime (LocalTime tza t))"
| "getHours tza InvalidDate = None"

fun getMinutes :: "LocalTZA \<Rightarrow> Date \<Rightarrow> int option" where
  "getMinutes tza (TimeValue t) = Some (MinFromTime (LocalTime tza t))"
| "getMinutes tza InvalidDate = None"

fun getSeconds :: "LocalTZA \<Rightarrow> Date \<Rightarrow> int option" where
  "getSeconds tza (TimeValue t) = Some (SecFromTime (LocalTime tza t))"
| "getSeconds tza InvalidDate = None"

section \<open>Schedule rows (\<open>src/lib/schedule.ts\<close>)\<close>

text \<open>
  \<open>isDigit\<close> is the class \<open>\d\<close> and \<open>isWhiteSpace\<close> the class \<open>\s\<close> of a JavaScript
  regular expression without the \<open>u\<close> flag; \<open>trim\<close> removes the same characters.
\<close>

definition isDigit :: "nat \<Rightarrow> bool" where
  "isDigit c \<longleftrightarrow> 48 \<le> c \<and> c \<le> 57"

definition isWhiteSpace :: "nat \<Rightarrow> bool" where
  "isWhiteSpace c \<longleftrightarrow>
     c = 9 \<or> c = 10 \<or> c = 11 \<or> c = 12 \<or> c = 13 \<or> c = 32 \<or> c = 160 \<or> c = 5760 \<or>
     (8192 \<le> c \<and> c \<le> 8202) \<or> c = 8232 \<or> c = 8233 \<or> c = 8239 \<or> c = 8287 \<or>
     c = 12288 \<or> c = 65279"

definition trim :: "jsstring \<Rightarrow> jsstring" where
  "trim s = rev (dropWhile isWhiteSpace (rev (dropWhile isWhiteSpace s)))"

text \<open>
  The regular expression of \<open>parseDateTime\<close>,
  \<open>^(\d{4})\/(\d{1,2})\/(\d{1,2})\s+(\d{1,2}):(\d{1,2})(?::(\d{1,2}))?$\<close>, matched from left to
  right.  Every run of digits or of white space is followed by a character outside its
  class or by the end of the input, so taking the longest run (\<open>take_digits\<close>,
  \<open>spaces\<close>) loses no match that backtracking would find: lemma \<open>match_regex_iff\<close>
  shows that \<open>match_regex\<close> succeeds exactly on the language of the expression, with
  the groups it captures.
\<close>

fun take_digits :: "nat \<Rightarrow> jsstring \<Rightarrow> jsstring \<times> jsstring" where
  "take_digits 0 s = ([], s)"
| "take_digits (Suc n) [] = ([], [])"
| "take_digits (Suc n) (c # s) =
     (if isDigit c then (case take_digits n s of (ds, r) \<Rightarrow> (c # ds, r)) else ([], c # s))"

definition digits4 :: "jsstring \<Rightarrow> (jsstring \<times> jsstring) option" where
  "digits4 s = (case take_digits 4 s of (ds, r) \<Rightarrow> if length ds = 4 then Some (ds, r) else None)"

definition digits12 :: "jsstring \<Rightarrow> (jsstring \<times> jsstring) option" where
  "digits12 s = (case take_digits 2 s of (ds, r) \<Rightarrow> if ds = [] then None else Some (ds, r))"

definition literal :: "nat \<Rightarrow> jsstring \<Rightarrow> jsstring option" where
  "literal c s = (case s of [] \<Rightarrow> None | x # r \<Rightarrow> if x = c then Some r else None)"

definition spaces :: "jsstring \<Rightarrow> jsstring option" where
  "spaces s = (case s of [] \<Rightarrow> None
               | x # r \<Rightarrow> if isWhiteSpace x then Some (dropWhile isWhiteSpace r) else None)"

definition match_regex ::
  "jsstring \<Rightarrow> (jsstring \<times> jsstring \<times> jsstring \<times> jsstring \<times> jsstring \<times> jsstring option) option" where
  "match_regex s =
     do {
       (year, r1) \<leftarrow> digits4 s;
       r2 \<leftarrow> literal 47 r1;
       (month, r3) \<leftarrow> digits12 r2;
       r4 \<leftarrow> literal 47 r3;
       (day, r5) \<leftarrow> digits12 r4;
       r6 \<leftarrow> spaces r5;
       (hour, r7) \<leftarrow> digits12 r6;
       r8 \<leftarrow> literal 58 r7;
       (minute, r9) \<leftarrow> digits12 r8;
       if r9 = [] then Some (year, month, day, hour, minute, None)
       else do {
         r10 \<leftarrow> literal 58 r9;
         (second, r11) \<leftarrow> digits12 r10;
         if r11 = [] then Some (year, month, day, hour, minute, Some second) else None
       }
     }"

text \<open>
  \<open>Number.parseInt(ds, 10)\<close> on a string of decimal digits, and \<open>parseDateTime\<close>.
\<close>

definition parseInt :: "jsstring \<Rightarrow> int" where
  "parseInt ds = foldl (\<lambda>acc c. 10 * acc + (int c - 48)) 0 ds"

definition parseDateTime :: "LocalTZA \<Rightarrow> jsstring \<Rightarrow> Date Result" where
  "parseDateTime tza dateTimeStr =
     (if dateTimeStr = [] \<or> trim dateTimeStr = [] then
        Inl (Error (js ''Invalid datetime format: empty string''))
      else
        case match_regex dateTimeStr of
          None \<Rightarrow> Inl (Error (js ''Invalid datetime format: '' @ dateTimeStr))
        | Some (year, month, day, hour, minute, second) \<Rightarrow>
            (let date = new_Date tza (parseInt year) (parseInt month - 1) (parseInt day)
                          (parseInt hour) (parseInt minute)
                          (case second of Some sec \<Rightarrow> parseInt sec | None \<Rightarrow> 0);
                 expectedSecond = (case second of Some sec \<Rightarrow> parseInt sec | None \<Rightarrow> 0)
             in
             if getFullYear tza date \<noteq> Some (parseInt year) \<or>
                getMonth tza date \<noteq> Some (parseInt month - 1) \<or>
                getDate tza date \<noteq> Some (parseInt day) \<or>
                getHours tza date \<noteq> Some (parseInt hour) \<or>
                getMinutes tza date \<noteq> Some (parseInt minute) \<or>
                getSeconds tza date \<noteq> Some expectedSecond
             then Inl (Error (js ''Invalid datetime format: '' @ dateTimeStr))
             else Inr date))"

text \<open>
  \<open>isValidSlackUserId\<close> and \<open>validateScheduleRow\<close>; \<open>string_of_nat\<close> renders
  \<open>row.length\<close> in the error message.
\<close>

definition isValidSlackUserId :: "jsstring \<Rightarrow> bool" where
  "isValidSlackUserId userId \<longleftrightarrow> length userId \<ge> 3"

fun string_of_nat :: "nat \<Rightarrow> jsstring" where
  "string_of_nat n = (if n < 10 then [48 + n] else string_of_nat (n div 10) @ [48 + n mod 10])"

declare string_of_nat.simps [simp del]

definition validateScheduleRow :: "LocalTZA \<Rightarrow> jsstring list \<Rightarrow> Schedule Result" where
  "validateScheduleRow tza row =
     (if length row < 7 then
        Inl (Error (js ''Invalid row data: insufficient columns (expected 7, got '' @
                    string_of_nat (length row) @ js '')''))
      else
        (let productName' = row ! 0;
             environmentName' = row ! 1;
             startDateTimeStr = row ! 2;
             endDateTimeStr = row ! 3;
             personInChargeId' = row ! 4;
             personInChargeName' = row ! 5;
             remarks' = row ! 6
         in
         case parseDateTime tza startDateTimeStr of
           Inl e \<Rightarrow> Inl (Error (js ''Invalid start datetime: '' @ error_message e))
         | Inr startValue \<Rightarrow>
             (case parseDateTime tza endDateTimeStr of
                Inl e \<Rightarrow> Inl (Error (js ''Invalid end datetime: '' @ error_message e))
              | Inr endValue \<Rightarrow>
                  if \<not> isValidSlackUserId personInChargeId' then
                    Inl (Error (js ''Invalid person in charge ID: '' @ personInChargeId'))
                  else
                    Inr \<lparr>productName = productName', environmentName = environmentName',
                         startDateTime = startValue, endDateTime = endValue,
                         personInChargeId = personInChargeId',
                         personInChargeName = personInChargeName', remarks = remarks'\<rparr>)))"

text \<open>
  The pattern in the words of the specification: a year of four digits, \<open>/\<close>, a
  month and a day of one or two digits, white space \<open>W\<close>, hours \<open>:\<close> minutes and
  optionally \<open>:\<close> seconds, each of one or two digits.  \<open>calendar_valid\<close> says that the
  numbers denote a date of the Gregorian calendar and a time of day, and \<open>wallClock\<close>
  is the local time value they denote.
\<close>

definition one_or_two_digits :: "jsstring \<Rightarrow> bool" where
  "one_or_two_digits ds \<longleftrightarrow> (length ds = 1 \<or> length ds = 2) \<and> list_all isDigit ds"

definition datetime_pattern ::
  "jsstring \<Rightarrow> jsstring \<Rightarrow> jsstring \<Rightarrow> jsstring \<Rightarrow> jsstring \<Rightarrow> jsstring \<Rightarrow> jsstring \<Rightarrow> jsstring option \<Rightarrow> bool" where
  "datetime_pattern s Y M D W H Mi S \<longleftrightarrow>
     s = Y @ [47] @ M @ [47] @ D @ W @ H @ [58] @ Mi @ (case S of None \<Rightarrow> [] | Some x \<Rightarrow> [58] @ x) \<and>
     length Y = 4 \<and> list_all isDigit Y \<and>
     one_or_two_digits M \<and> one_or_two_digits D \<and>
     W \<noteq> [] \<and> list_all isWhiteSpace W \<and>
     one_or_two_digits H \<and> one_or_two_digits Mi \<and>
     (case S of None \<Rightarrow> True | Some x \<Rightarrow> one_or_two_digits x)"

definition calendar_valid :: "int \<Rightarrow> int \<Rightarrow> int \<Rightarrow> int \<Rightarrow> int \<Rightarrow> int \<Rightarrow> bool" where
  "calendar_valid y m d h mi s \<longleftrightarrow>
     1 \<le> m \<and> m \<le> 12 \<and> 1 \<le> d \<and> d \<le> DaysInMonth y m \<and>
     0 \<le> h \<and> h \<le> 23 \<and> 0 \<le> mi \<and> mi \<le> 59 \<and> 0 \<le> s \<and> s \<le> 59"

definition wallClock :: "int \<Rightarrow> int \<Rightarrow> int \<Rightarrow> int \<Rightarrow> int \<Rightarrow> int \<Rightarrow> int" where
  "wallClock y m d h mi s = MakeDate (MakeDay y (m - 1) d) (MakeTime h mi s 0)"

section \<open>The messaging adapter (\<open>src/lib/slack.ts\<close>)\<close>

text \<open>
  \<open>SlackApi\<close> is the injected wrapper of the web client; its four responses are the
  object types of the interface, an optional property being an \<open>option\<close>.
  \<open>SlackWebClient\<close> is the only implementation of \<open>SlackClient\<close> in the repository:
  every method body is one \<open>try\<close> whose \<open>catch\<close> returns an error result, so a
  rejected promise of the wrapper becomes a resolved error.  \<open>thrown_message\<close>
  is the expression \<open>error instanceof Error ? error.message : 'Unknown error occurred'\<close>,
  and \<open>messageResult\<close> the common tail of \<open>postMessage\<close> and \<open>postThreadMessage\<close>,
  where \<open>!response.channel\<close> holds of an absent and of an empty string.
\<close>

record ApiMessageResponse =
  ok_m :: bool
  channel_m :: "jsstring option"
  ts_m :: "jsstring option"
  error_m :: "jsstring option"

record ApiReactionsResponse =
  ok_r :: bool
  message_r :: "Reaction list option option"
  error_r :: "jsstring option"

record ApiUserResponse =
  ok_u :: bool
  user_u :: "UserInfo option"
  error_u :: "jsstring option"

record 'w SlackApi =
  api_postMessage :: "jsstring \<Rightarrow> jsstring \<Rightarrow> 'w \<Rightarrow> ApiMessageResponse promise \<times> 'w"
  api_getReactions :: "jsstring \<Rightarrow> jsstring \<Rightarrow> 'w \<Rightarrow> ApiReactionsResponse promise \<times> 'w"
  api_postThreadMessage ::
    "jsstring \<Rightarrow> jsstring \<Rightarrow> jsstring \<Rightarrow> 'w \<Rightarrow> ApiMessageResponse promise \<times> 'w"
  api_getUserInfo :: "jsstring \<Rightarrow> 'w \<Rightarrow> ApiUserResponse promise \<times> 'w"

definition thrown_message :: "thrown \<Rightarrow> jsstring" where
  "thrown_message t =
     (case t of ThrownError e \<Rightarrow> error_message e | ThrownOther \<Rightarrow> js ''Unknown error occurred'')"

definition messageResult :: "jsstring \<Rightarrow> ApiMessageResponse \<Rightarrow> MessageInfo Result" where
  "messageResult what response =
     (let failure = Inl (Error (js ''Failed to post '' @ what @ js '': '' @
                                or_string (error_m response) (js ''Unknown error'')))
      in case (channel_m response, ts_m response) of
           (Some c, Some t) \<Rightarrow>
             if \<not> ok_m response \<or> c = [] \<or> t = [] then failure
             else Inr \<lparr>channel = c, timestamp = t\<rparr>
         | _ \<Rightarrow> failure)"

definition SlackWebClient :: "'w SlackApi \<Rightarrow> 'w SlackClient" where
  "SlackWebClient api =
     \<lparr>postMessage = (\<lambda>channel' text mentions w.
        (let textWithMentions =
               (if length mentions > 0
                then join (js '' '') (map (\<lambda>id'. js ''<@'' @ id' @ js ''>'') mentions) @
                     js '' '' @ text
                else text)
         in case api_postMessage api channel' textWithMentions w of
              (Rejects t, w') \<Rightarrow>
                (Resolves (Inl (Error (js ''Failed to post message to Slack: '' @
                                       thrown_message t))), w')
            | (Resolves response, w') \<Rightarrow>
                (Resolves (messageResult (js ''message'') response), w'))),
      getReactions = (\<lambda>channel' timestamp' w.
        case api_getReactions api channel' timestamp' w of
          (Rejects t, w') \<Rightarrow>
            (Resolves (Inl (Error (js ''Failed to get reactions from Slack: '' @
                                   thrown_message t))), w')
        | (Resolves response, w') \<Rightarrow>
            (Resolves
               (if \<not> ok_r response
                then Inl (Error (js ''Failed to get reactions: '' @
                                 or_string (error_r response) (js ''Unknown error'')))
                else Inr (case message_r response of
                            Some (Some reactions) \<Rightarrow> reactions
                          | _ \<Rightarrow> [])), w')),
      postThreadMessage = (\<lambda>channel' threadTs text w.
        case api_postThreadMessage api channel' threadTs text w of
          (Rejects t, w') \<Rightarrow>
            (Resolves (Inl (Error (js ''Failed to post thread message to Slack: '' @
                                   thrown_message t))), w')
        | (Resolves response, w') \<Rightarrow>
            (Resolves (messageResult (js ''thread message'') response), w')),
      getUserInfo = (\<lambda>userId w.
        case api_getUserInfo api userId w of
          (Rejects t, w') \<Rightarrow>
            (Resolves (Inl (Error (js ''Failed to get user info from Slack: '' @
                                   thrown_message t))), w')
        | (Resolves response, w') \<Rightarrow>
            (Resolves
               (case user_u response of
                  Some user \<Rightarrow>
                    if \<not> ok_u response
                    then Inl (Error (js ''Failed to get user info: '' @
                                     or_string (error_u response) (js ''Unknown error'')))
                    else Inr \<lparr>id_u = id_u user, name_u = name_u user\<rparr>
                | None \<Rightarrow> Inl (Error (js ''Failed to get user info: '' @
                                      or_string (error_u response) (js ''Unknown error'')))), w'))\<rparr>"


section \<open>Runs of the polling loop\<close>





section \<open>Concrete inputs\<close>

text \<open>Schedules, by product, environment and time values of start and end.\<close>

definition mkSchedule :: "string \<Rightarrow> string \<Rightarrow> int \<Rightarrow> int \<Rightarrow> Schedule" where
  "mkSchedule p e s t =
     \<lparr>productName = js p, environmentName = js e,
      startDateTime = TimeValue s, endDateTime = TimeValue t,
      personInChargeId = js ''U123'', personInChargeName = js ''Ann'', remarks = []\<rparr>"

definition exA :: Schedule where "exA = mkSchedule ''app'' ''staging'' 0 100"
definition exB :: Schedule where "exB = mkSchedule ''web'' ''staging'' 50 150"
definition exC :: Schedule where "exC = mkSchedule ''app'' ''prod'' 0 100"
definition exD :: Schedule where "exD = mkSchedule ''app'' ''staging'' 100 200"

text \<open>
  A world that records the calls made on it, with a clock in milliseconds.  The
  messaging client answers every \<open>postMessage\<close> with \<open>posting\<close>; a \<open>getReactions\<close>
  takes \<open>latency\<close> milliseconds and answers \<open>reactionsAt\<close> the time it returns;
  \<open>getUserInfo\<close> fails and \<open>postThreadMessage\<close> succeeds.  The host knows the zones
  \<open>Asia/Tokyo\<close> and \<open>UTC\<close>.
\<close>

datatype call =
    FetchSchedules
  | PostMessage jsstring jsstring "jsstring list"
  | GetReactions jsstring jsstring
  | PostThreadMessage jsstring jsstring jsstring
  | GetUserInfo jsstring
  | Sleep int

record world =
  clock :: int
  calls :: "call list"

definition testHost :: "world Host" where
  "testHost =
     \<lparr>dateNow = clock,
      sleep = (\<lambda>ms w. w\<lparr>clock := clock w + ms, calls := calls w @ [Sleep ms]\<rparr>),
      utcOffset = (\<lambda>tz t. if tz = js ''Asia/Tokyo'' then Some 540
                           else if tz = js ''UTC'' then Some 0 else None),
      numberToString = (\<lambda>n. if n = Num 20 then js ''20'' else if n = Num 1 then js ''1'' else js ''?'')\<rparr>"

definition testSlack ::
  "MessageInfo Result promise \<Rightarrow> int \<Rightarrow> (int \<Rightarrow> Reaction list Result promise) \<Rightarrow> world SlackClient" where
  "testSlack posting latency reactionsAt =
     \<lparr>postMessage = (\<lambda>ch text mentions w. (posting, w\<lparr>calls := calls w @ [PostMessage ch text mentions]\<rparr>)),
      getReactions = (\<lambda>ch ts w.
        (reactionsAt (clock w + latency),
         w\<lparr>clock := clock w + latency, calls := calls w @ [GetReactions ch ts]\<rparr>)),
      postThreadMessage = (\<lambda>ch ts text w.
        (Resolves (Inr \<lparr>channel = ch, timestamp = js ''2.0''\<rparr>),
         w\<lparr>calls := calls w @ [PostThreadMessage ch ts text]\<rparr>)),
      getUserInfo = (\<lambda>u w.
        (Resolves (Inl (Error (js ''user_not_found''))), w\<lparr>calls := calls w @ [GetUserInfo u]\<rparr>))\<rparr>"

definition testSheets :: "Schedule list Result promise \<Rightarrow> world SheetsClient" where
  "testSheets fetched = \<lparr>fetchSchedules = (\<lambda>w. (fetched, w\<lparr>calls := calls w @ [FetchSchedules]\<rparr>))\<rparr>"

definition testConfig :: ReleaseCheckConfig where
  "testConfig =
     \<lparr>productName_c = js ''app'', environmentName_c = js ''staging'',
      requesterUserId = Some (js ''U999''), waitMinutes = Some (Num 1),
      approveReaction = None, rejectReaction = None, timezone = Some (js ''UTC'')\<rparr>"

definition w0 :: world where "w0 = \<lparr>clock = 60, calls = []\<rparr>"

definition noReactions :: "int \<Rightarrow> Reaction list Result promise" where
  "noReactions t = Resolves (Inr [])"


definition w100 :: world where "w100 = \<lparr>clock = 100, calls = []\<rparr>"



definition postOk :: "MessageInfo Result promise" where
  "postOk = Resolves (Inr \<lparr>channel = js ''C1'', timestamp = js ''1.0''\<rparr>)"

definition postFails :: "MessageInfo Result promise" where
  "postFails = Resolves (Inl (Error (js ''channel_not_found'')))"

definition fetchFails :: "Schedule list Result promise" where
  "fetchFails = Resolves (Inl (Error (js ''boom'')))"

text \<open>
  A web API that is down: every call is recorded and its promise rejects.
\<close>

definition downApi :: "world SlackApi" where
  "downApi =
     \<lparr>api_postMessage = (\<lambda>c text w.
        (Rejects (ThrownError (Error (js ''socket hang up''))),
         w\<lparr>calls := calls w @ [PostMessage c text []]\<rparr>)),
      api_getReactions = (\<lambda>c ts w.
        (Rejects (ThrownError (Error (js ''socket hang up''))),
         w\<lparr>calls := calls w @ [GetReactions c ts]\<rparr>)),
      api_postThreadMessage = (\<lambda>c ts text w.
        (Rejects (ThrownError (Error (js ''socket hang up''))),
         w\<lparr>calls := calls w @ [PostThreadMessage c ts text]\<rparr>)),
      api_getUserInfo = (\<lambda>u w.
        (Rejects ThrownOther, w\<lparr>calls := calls w @ [GetUserInfo u]\<rparr>))\<rparr>"

text \<open>
  A client outside the convention of \<open>SlackWebClient\<close>: it shows the given reactions,
  and its other three calls throw.
\<close>

definition throwingSlack :: "Reaction list \<Rightarrow> world SlackClient" where
  "throwingSlack reactions =
     \<lparr>postMessage = (\<lambda>ch text mentions w.
        (Rejects (ThrownError (Error (js ''socket hang up''))),
         w\<lparr>calls := calls w @ [PostMessage ch text mentions]\<rparr>)),
      getReactions = (\<lambda>ch ts w.
        (Resolves (Inr reactions), w\<lparr>calls := calls w @ [GetReactions ch ts]\<rparr>)),
      postThreadMessage = (\<lambda>ch ts text w.
        (Rejects (ThrownError (Error (js ''socket hang up''))),
         w\<lparr>calls := calls w @ [PostThreadMessage ch ts text]\<rparr>)),
      getUserInfo = (\<lambda>u w.
        (Rejects (ThrownError (Error (js ''socket hang up''))),
         w\<lparr>calls := calls w @ [GetUserInfo u]\<rparr>))\<rparr>"

text \<open>
  Host time zones: UTC, Tokyo (nine hours ahead, no clock changes), and a zone five hours
  behind UTC whose clocks go forward by an hour on 2024-03-10 at 02:00 local time.  Two
  rows of the schedule sheet.
\<close>

definition utcZone :: LocalTZA where "utcZone t isUTC = 0"

definition tokyoZone :: LocalTZA where "tokyoZone t isUTC = 32400000"

definition easternZone :: LocalTZA where
  "easternZone t isUTC =
     (if isUTC then (if t < 1710054000000 then - 18000000 else - 14400000)
      else (if t < 1710039600000 then - 18000000 else - 14400000))"

definition validRow :: "jsstring list" where
  "validRow = [js ''web-app'', js ''staging'', js ''2024/01/15 10:00'', js ''2024/01/15 18:00'',
               js ''U1234ABCD'', js ''John Doe'', js ''Feature testing'']"

definition badRow :: "jsstring list" where
  "badRow = [js ''web-app'', js ''staging'', js ''bad'', js ''worse'', js ''ab'', js ''John Doe'',
             js ''Feature testing'']"

section \<open>Properties of the double arithmetic\<close>


lemma roundTiesToEven_int [simp]: "roundTiesToEven (of_int m) = m"
  by (simp add: roundTiesToEven_def)

lemma ilog2_int:
  assumes "0 < n" "n < 2 ^ 53"
  shows "0 \<le> ilog2 (of_int n)" "ilog2 (of_int n) \<le> 52"
proof -
  have b: "2 ^ nat (bitlen n - 1) \<le> n" "n < 2 ^ nat (bitlen n)"
    using bitlen_bounds [OF assms(1)] by auto
  have "1 \<le> bitlen n" using assms(1) by (auto simp: bitlen_alt_def)
  then show "0 \<le> ilog2 (of_int n)" using assms by (simp add: ilog2_def)
  have "nat (bitlen n - 1) < 53"
  proof (rule ccontr)
    assume "\<not> nat (bitlen n - 1) < 53"
    then have "(2::int) ^ 53 \<le> 2 ^ nat (bitlen n - 1)" by (intro power_increasing) auto
    with b(1) assms(2) show False by linarith
  qed
  then show "ilog2 (of_int n) \<le> 52" using assms by (simp add: ilog2_def)
qed

lemma roundToDouble_int:
  assumes "\<bar>n\<bar> < 2 ^ 53"
  shows "roundToDouble (of_int n) = Num (of_int n)"
proof (cases "n = 0")
  case True then show ?thesis by (simp add: roundToDouble_def)
next
  case False
  define e where "e = ilog2 \<bar>of_int n\<bar>"
  have e: "0 \<le> e" "e \<le> 52"
    using ilog2_int [of "\<bar>n\<bar>"] assms False by (simp_all add: e_def)
  define k where "k = nat (52 - e)"
  have ulp: "pow2 (max e (- 1022) - 52) = 1 / 2 ^ k"
    using e by (auto simp: pow2_def k_def max_def)
  have q: "real_of_int n / (1 / 2 ^ k) = of_int (n * 2 ^ k)" by simp
  have big: "\<not> pow2 1024 \<le> \<bar>real_of_int n\<bar>"
  proof -
    have "\<bar>real_of_int n\<bar> < 2 ^ 53" using assms
      by (metis of_int_abs of_int_less_numeral_power_cancel_iff)
    moreover have "(2::real) ^ 53 \<le> pow2 1024" by (simp add: pow2_def)
    ultimately show ?thesis by linarith
  qed
  show ?thesis
    unfolding roundToDouble_def Let_def e_def [symmetric] ulp q roundTiesToEven_int
    using False big by simp
qed

lemma roundToDouble_numeral:
  "\<bar>numeral k :: int\<bar> < 2 ^ 53 \<Longrightarrow> roundToDouble (numeral k) = Num (numeral k)"
  using roundToDouble_int [of "numeral k"] by simp

lemma roundToDouble_zero: "roundToDouble 0 = Num 0"
  by (simp add: roundToDouble_def)

lemma roundToDouble_one: "roundToDouble 1 = Num 1"
  using roundToDouble_int [of 1] by simp

lemmas double_eval = roundToDouble_zero roundToDouble_one roundToDouble_numeral





text \<open>
  The number \<open>0.1\<close> is the double \<open>3602879701896397 / 2 ^ 55\<close>, a little above one tenth;
  six seconds come out exact, each product being rounded.
\<close>

lemma timeout_of_a_tenth:
  "num_mul (num_mul (Num (3602879701896397 / 2 ^ 55)) (Num 60)) (Num 1000) = Num 6000"
  by (simp add: roundToDouble_def ilog2_def roundTiesToEven_def pow2_def Let_def compute_bitlen)


section \<open>Properties of the time and schedule utilities\<close>

text \<open>
  C3. \<open>isWithinTimeRange t start end\<close> is true exactly when \<open>start <= t < end\<close> (in
  JavaScript's comparison of dates; on valid dates, the comparison of their time values):
  at \<open>t = start\<close> it is true whenever the range is non-empty, at \<open>t = end\<close> it is false.
  \<open>findActiveSchedules\<close> returns exactly the schedules whose half-open range contains
  the instant, in input order.
\<close>

theorem isWithinTimeRange_half_open:
  "isWithinTimeRange t start end' = (date_le start t \<and> date_lt t end') \<and>
   isWithinTimeRange (TimeValue c) (TimeValue s) (TimeValue e) = (s \<le> c \<and> c < e) \<and>
   isWithinTimeRange start start end' = date_lt start end' \<and>
   \<not> isWithinTimeRange end' start end' \<and>
   findActiveSchedules xs t =
     filter (\<lambda>x. date_le (startDateTime x) t \<and> date_lt t (endDateTime x)) xs \<and>
   subseq (findActiveSchedules xs t) xs"
proof -
  have ge: "date_ge a b = date_le b a" for a b
    by (cases a; cases b) auto
  have irr: "\<not> date_lt a a" for a by (cases a) auto
  have a: "isWithinTimeRange t start end' = (date_le start t \<and> date_lt t end')" for t start end'
    by (simp add: isWithinTimeRange_def ge)
  have b: "isWithinTimeRange start start end' = date_lt start end'"
    by (cases start; cases end') (auto simp: isWithinTimeRange_def)
  have c: "\<not> isWithinTimeRange end' start end'"
    by (simp add: isWithinTimeRange_def irr)
  have d: "findActiveSchedules xs t =
     filter (\<lambda>x. date_le (startDateTime x) t \<and> date_lt t (endDateTime x)) xs"
    by (simp add: findActiveSchedules_def a)
  have e: "subseq (findActiveSchedules xs t) xs"
    by (simp add: findActiveSchedules_def)
  have f: "isWithinTimeRange (TimeValue c) (TimeValue s) (TimeValue e) = (s \<le> c \<and> c < e)"
    by (simp add: isWithinTimeRange_def)
  from a b c d e f show ?thesis by blast
qed

theorem isWithinTimeRange_half_open_witness:
  "isWithinTimeRange (TimeValue 100) (TimeValue 100) (TimeValue 200) \<and>
   \<not> isWithinTimeRange (TimeValue 200) (TimeValue 100) (TimeValue 200) \<and>
   findActiveSchedules [exA, exB, exC, exD] (TimeValue 100) = [exB, exD]"
  using isWithinTimeRange_half_open [of "TimeValue 100" "TimeValue 100" "TimeValue 200" 100 100 200
      "[exA, exB, exC, exD]"]
    isWithinTimeRange_half_open [of "TimeValue 100" "TimeValue 100" "TimeValue 200" 100 100 200
      "[exA, exB, exC, exD]", THEN conjunct2, THEN conjunct2, THEN conjunct2, THEN conjunct2,
      THEN conjunct1]
  by (simp add: exA_def exB_def exC_def exD_def mkSchedule_def)

lemma inner_char:
  "findOverlapping_inner xs i j acc =
     acc @ map (\<lambda>k. [xs ! i, xs ! k]) (filter (\<lambda>k. overlapping (xs ! i) (xs ! k)) [j..<length xs])"
proof (induction xs i j acc rule: findOverlapping_inner.induct)
  case (1 ss i j overlaps)
  show ?case
  proof (cases "j < length ss")
    case True
    then have up: "[j..<length ss] = j # [j + 1..<length ss]"
      by (simp add: upt_conv_Cons)
    from True 1 show ?thesis
      by (subst findOverlapping_inner.simps) (auto simp: Let_def overlapping_def up)
  next
    case False
    then show ?thesis by (subst findOverlapping_inner.simps) simp
  qed
qed

lemma outer_char:
  "findOverlapping_outer xs i acc =
     acc @ concat (map (\<lambda>a. map (\<lambda>k. [xs ! a, xs ! k])
                     (filter (\<lambda>k. overlapping (xs ! a) (xs ! k)) [a + 1..<length xs]))
                   [i..<length xs])"
proof (induction xs i acc rule: findOverlapping_outer.induct)
  case (1 ss i overlaps)
  show ?case
  proof (cases "i < length ss")
    case True
    then have up: "[i..<length ss] = i # [i + 1..<length ss]"
      by (simp add: upt_conv_Cons)
    from True 1 show ?thesis
      by (subst findOverlapping_outer.simps) (simp add: inner_char up)
  next
    case False
    then show ?thesis by (subst findOverlapping_outer.simps) simp
  qed
qed

lemma distinct_index_pairs: "distinct (index_pairs n)"
proof -
  have inj: "x = y"
    if "x < n" "y < n" and eq: "map (Pair x) [Suc x..<n] = map (Pair y) [Suc y..<n]" for x y
  proof -
    from eq have "length (map (Pair x) [Suc x..<n]) = length (map (Pair y) [Suc y..<n])"
      by simp
    then have "n - Suc x = n - Suc y" by simp
    with that(1,2) show "x = y" by arith
  qed
  show ?thesis
    unfolding index_pairs_def
    by (rule distinct_concat) (auto simp: distinct_map inj_on_def dest: inj)
qed

lemma set_index_pairs: "set (index_pairs n) = {(i, j). i < j \<and> j < n}"
proof -
  have "(a, b) \<in> set (index_pairs n)" if "a < b" "b < n" for a b
    unfolding index_pairs_def using that
    by (auto intro!: bexI [where x = a])
  then show ?thesis
    unfolding index_pairs_def by auto
qed

lemma findOverlapping_index_pairs:
  "findOverlappingSchedules xs =
     map (\<lambda>(i, j). [xs ! i, xs ! j])
       (filter (\<lambda>(i, j). overlapping (xs ! i) (xs ! j)) (index_pairs (length xs)))"
  unfolding findOverlappingSchedules_def outer_char index_pairs_def
  by (simp add: map_concat filter_concat comp_def filter_map)

text \<open>
  C7. \<open>findOverlappingSchedules\<close> returns one two-element array \<open>[A, B]\<close> for each pair
  of positions \<open>i < j\<close> whose schedules have the same environment name and satisfy
  \<open>A.start < B.end\<close> and \<open>B.start < A.end\<close>, and nothing else: each qualifying pair of
  positions contributes exactly one entry, pairs in different environments or with
  disjoint half-open ranges contribute none, and entries are pairs, never merged groups.
\<close>

theorem findOverlappingSchedules_pairs:
  "(\<exists>ps. distinct ps \<and>
         set ps = {(i, j). i < j \<and> j < length xs \<and> overlapping (xs ! i) (xs ! j)} \<and>
         findOverlappingSchedules xs = map (\<lambda>(i, j). [xs ! i, xs ! j]) ps) \<and>
   ([A, B] \<in> set (findOverlappingSchedules xs) \<longleftrightarrow>
      (\<exists>i j. i < j \<and> j < length xs \<and> xs ! i = A \<and> xs ! j = B \<and> overlapping A B)) \<and>
   (\<forall>p \<in> set (findOverlappingSchedules xs). length p = 2)"
proof (intro conjI)
  let ?ps = "filter (\<lambda>(i, j). overlapping (xs ! i) (xs ! j)) (index_pairs (length xs))"
  have "distinct ?ps" by (simp add: distinct_index_pairs)
  moreover have "set ?ps = {(i, j). i < j \<and> j < length xs \<and> overlapping (xs ! i) (xs ! j)}"
    by (auto simp: set_index_pairs)
  ultimately show "\<exists>ps. distinct ps \<and>
         set ps = {(i, j). i < j \<and> j < length xs \<and> overlapping (xs ! i) (xs ! j)} \<and>
         findOverlappingSchedules xs = map (\<lambda>(i, j). [xs ! i, xs ! j]) ps"
    using findOverlapping_index_pairs by blast
next
  show "[A, B] \<in> set (findOverlappingSchedules xs) \<longleftrightarrow>
      (\<exists>i j. i < j \<and> j < length xs \<and> xs ! i = A \<and> xs ! j = B \<and> overlapping A B)"
    by (auto simp: findOverlapping_index_pairs set_index_pairs)
next
  show "\<forall>p \<in> set (findOverlappingSchedules xs). length p = 2"
    by (auto simp: findOverlapping_index_pairs)
qed

text \<open>
  Four schedules: A and B overlap in \<open>staging\<close>; C is in another environment; D starts
  at the instant A ends, so A and D do not overlap, while B and D do.
\<close>

theorem findOverlappingSchedules_pairs_witness:
  "findOverlappingSchedules [exA, exB, exC, exD] = [[exA, exB], [exB, exD]] \<and>
   [exA, exB] \<in> set (findOverlappingSchedules [exA, exB, exC, exD]) \<and>
   [exA, exD] \<notin> set (findOverlappingSchedules [exA, exB, exC, exD])"
proof -
  have ev: "findOverlappingSchedules [exA, exB, exC, exD] = [[exA, exB], [exB, exD]]"
    by (simp add: findOverlappingSchedules_def exA_def exB_def exC_def exD_def mkSchedule_def
        findOverlapping_outer.simps findOverlapping_inner.simps Let_def)
  have "overlapping exA exB"
    by (simp add: overlapping_def exA_def exB_def mkSchedule_def)
  then have "\<exists>i j. i < j \<and> j < length [exA, exB, exC, exD] \<and> [exA, exB, exC, exD] ! i = exA \<and>
      [exA, exB, exC, exD] ! j = exB \<and> overlapping exA exB"
    by (intro exI [where x = 0] exI [where x = 1]) simp
  then have "[exA, exB] \<in> set (findOverlappingSchedules [exA, exB, exC, exD])"
    using findOverlappingSchedules_pairs [of "[exA, exB, exC, exD]" exA exB] by blast
  moreover have "[exA, exD] \<notin> set (findOverlappingSchedules [exA, exB, exC, exD])"
    by (simp add: ev) (simp add: exA_def exB_def exD_def mkSchedule_def)
  ultimately show ?thesis using ev by simp
qed

section \<open>Properties of the release check\<close>

text \<open>
  The promises of \<open>SlackWebClient\<close> always resolve, whatever the web API does.
\<close>

lemma SlackWebClient_resolves:
  "\<exists>r v'. postMessage (SlackWebClient api) c x ms v = (Resolves r, v')"
  "\<exists>r v'. getReactions (SlackWebClient api) c t v = (Resolves r, v')"
  "\<exists>r v'. postThreadMessage (SlackWebClient api) c t x v = (Resolves r, v')"
  "\<exists>r v'. getUserInfo (SlackWebClient api) u v = (Resolves r, v')"
  by (auto simp: SlackWebClient_def Let_def split: prod.splits promise.splits)

text \<open>
  So with the client of the repository a failed post of the notice never stops the
  release.
\<close>

lemma checkRelease_fetch_failure_SlackWebClient:
  assumes "utcOffset host (or_string (timezone config) (js ''Asia/Tokyo'')) (dateNow host w) = Some offsetMinutes"
    and "fetchSchedules sheets' w = (Resolves (Inl e), w1)"
  shows "\<exists>w2. checkRelease host config \<lparr>sheets = sheets', slack = SlackWebClient api\<rparr> channelId w =
           Some (Inr \<lparr>status = approved,
                      message = js ''Release approved - proceeding due to error (availability-first policy)'',
                      approvers = None, schedules = None\<rparr>, w2)"
proof -
  let ?notice = "[9888, 65039] @ js '' Error occurred while checking schedules: '' @
                  error_message e @ [10] @ js ''Proceeding with release for availability.''"
  obtain r w2 where "postMessage (SlackWebClient api) channelId ?notice [] w1 = (Resolves r, w2)"
    using SlackWebClient_resolves(1) [of api channelId ?notice "[]" w1] by blast
  with assms show ?thesis
    by (simp add: checkRelease_def getCurrentDateTime_def Let_def)
qed

text \<open>
  C1, as amended.  When the time zone is valid and \<open>sheets.fetchSchedules\<close> returns an
  error result, \<open>checkRelease\<close> makes exactly one call of the messaging client, a
  \<open>postMessage\<close> of the error notice with no mentions.  When that call returns,
  \<open>checkRelease\<close> returns an ok result with status \<open>approved\<close>, and the result the
  call returned (ok or error) does not enter the returned value.  When that call throws,
  the \<open>catch\<close> block of \<open>checkRelease\<close> turns the exception into the error result
  \<open>Release check failed: \<dots>\<close>.
\<close>

theorem checkRelease_fetch_failure:
  assumes tz: "utcOffset host (or_string (timezone config) (js ''Asia/Tokyo'')) (dateNow host w) = Some offsetMinutes"
    and fetch: "fetchSchedules (sheets services) w = (Resolves (Inl e), w1)"
  shows "checkRelease host config services channelId w =
           (case postMessage (slack services) channelId
                   ([9888, 65039] @ js '' Error occurred while checking schedules: '' @
                    error_message e @ [10] @ js ''Proceeding with release for availability.'')
                   [] w1 of
              (Resolves posted, w2) \<Rightarrow>
                Some (Inr \<lparr>status = approved,
                           message = js ''Release approved - proceeding due to error (availability-first policy)'',
                           approvers = None, schedules = None\<rparr>, w2)
            | (Rejects (ThrownError thrownError), w2) \<Rightarrow>
                Some (Inl (Error (js ''Release check failed: '' @ error_message thrownError)), w2)
            | (Rejects ThrownOther, w2) \<Rightarrow>
                Some (Inl (Error (js ''Release check failed: Unknown error occurred'')), w2))"
  using tz fetch
  by (simp add: checkRelease_def getCurrentDateTime_def caught_def Let_def
      split: prod.splits promise.splits thrown.splits)

theorem checkRelease_fetch_failure_witness:
  "checkRelease testHost testConfig
     \<lparr>sheets = testSheets fetchFails, slack = SlackWebClient downApi\<rparr> (js ''C1'') w0 =
   Some (Inr \<lparr>status = approved,
              message = js ''Release approved - proceeding due to error (availability-first policy)'',
              approvers = None, schedules = None\<rparr>,
         \<lparr>clock = 60,
          calls = [FetchSchedules,
                   PostMessage (js ''C1'')
                     ([9888, 65039] @ js '' Error occurred while checking schedules: boom'' @ [10] @
                      js ''Proceeding with release for availability.'') []]\<rparr>)"
proof -
  let ?svc = "\<lparr>sheets = testSheets fetchFails, slack = SlackWebClient downApi\<rparr>"
  have tz: "utcOffset testHost (or_string (timezone testConfig) (js ''Asia/Tokyo''))
              (dateNow testHost w0) = Some 0"
    by (simp add: testHost_def testConfig_def or_string_def)
  have fetch: "fetchSchedules (sheets ?svc) w0 =
                 (Resolves (Inl (Error (js ''boom''))), \<lparr>clock = 60, calls = [FetchSchedules]\<rparr>)"
    by (simp add: testSheets_def fetchFails_def w0_def)
  have post: "postMessage (slack ?svc) (js ''C1'')
                 ([9888, 65039] @ js '' Error occurred while checking schedules: '' @
                  error_message (Error (js ''boom'')) @ [10] @
                  js ''Proceeding with release for availability.'')
                 [] \<lparr>clock = 60, calls = [FetchSchedules]\<rparr> =
               (Resolves (Inl (Error (js ''Failed to post message to Slack: socket hang up''))),
                \<lparr>clock = 60,
                 calls = [FetchSchedules,
                   PostMessage (js ''C1'')
                     ([9888, 65039] @ js '' Error occurred while checking schedules: boom'' @ [10] @
                      js ''Proceeding with release for availability.'') []]\<rparr>)"
    by (simp add: SlackWebClient_def downApi_def thrown_message_def)
  show ?thesis
    using checkRelease_fetch_failure [OF tz fetch, of "js ''C1''"] by (simp only: post prod.case promise.case)
qed

text \<open>
  The claim as first stated fails where the post of the notice throws: the schedule
  fetch returns an error, and the run returns an error result, not \<open>approved\<close>.
\<close>

theorem checkRelease_notice_throws:
  "fst (fetchSchedules (testSheets fetchFails) w0) = Resolves (Inl (Error (js ''boom''))) \<and>
   checkRelease testHost testConfig
     \<lparr>sheets = testSheets fetchFails, slack = throwingSlack []\<rparr> (js ''C1'') w0 =
   Some (Inl (Error (js ''Release check failed: socket hang up'')),
         \<lparr>clock = 60,
          calls = [FetchSchedules,
                   PostMessage (js ''C1'')
                     ([9888, 65039] @ js '' Error occurred while checking schedules: boom'' @ [10] @
                      js ''Proceeding with release for availability.'') []]\<rparr>)"
  by (simp add: checkRelease_def getCurrentDateTime_def caught_def Let_def testHost_def
      testConfig_def or_string_def testSheets_def fetchFails_def throwingSlack_def w0_def)

text \<open>
  C8. When fetching succeeds and no fetched schedule has the configured product name and
  environment name (string equality) and is active at the resolved instant,
  \<open>checkRelease\<close> returns ok with status \<open>no_schedule\<close> and an empty schedule list.
  The world it returns is the one the fetch left: no method of the messaging client has
  been called.
\<close>

theorem checkRelease_no_schedule:
  assumes tz: "utcOffset host (or_string (timezone config) (js ''Asia/Tokyo'')) (dateNow host w) = Some offsetMinutes"
    and fetch: "fetchSchedules (sheets services) w = (Resolves (Inr fetched), w1)"
    and none: "\<forall>s \<in> set fetched.
                 \<not> (productName s = productName_c config \<and>
                    environmentName s = environmentName_c config \<and>
                    isWithinTimeRange (TimeValue (dateNow host w + offsetMinutes * 60000))
                      (startDateTime s) (endDateTime s))"
  shows "checkRelease host config services channelId w =
           Some (Inr \<lparr>status = no_schedule,
                      message = js ''No active schedules found for '' @ productName_c config @
                        js '' in '' @ environmentName_c config @ js '' environment. Release approved.'',
                      approvers = None, schedules = Some []\<rparr>, w1)"
proof -
  have "findRelevantSchedules fetched (productName_c config) (environmentName_c config)
          (TimeValue (dateNow host w + offsetMinutes * 60000)) = []"
    using none by (auto simp: findRelevantSchedules_def findActiveSchedules_def filter_empty_conv)
  then show ?thesis
    using tz fetch by (simp add: checkRelease_def getCurrentDateTime_def Let_def)
qed

theorem checkRelease_no_schedule_witness:
  "checkRelease testHost testConfig
     \<lparr>sheets = testSheets (Resolves (Inr [exB, exC, exA])),
      slack = testSlack postOk 0 noReactions\<rparr> (js ''C1'') w100 =
   Some (Inr \<lparr>status = no_schedule,
              message = js ''No active schedules found for app in staging environment. Release approved.'',
              approvers = None, schedules = Some []\<rparr>,
         \<lparr>clock = 100, calls = [FetchSchedules]\<rparr>)"
proof -
  let ?svc = "\<lparr>sheets = testSheets (Resolves (Inr [exB, exC, exA])),
      slack = testSlack postOk 0 noReactions\<rparr>"
  have tz: "utcOffset testHost (or_string (timezone testConfig) (js ''Asia/Tokyo''))
              (dateNow testHost w100) = Some 0"
    by (simp add: testHost_def testConfig_def or_string_def)
  have fetch: "fetchSchedules (sheets ?svc) w100 =
                 (Resolves (Inr [exB, exC, exA]), \<lparr>clock = 100, calls = [FetchSchedules]\<rparr>)"
    by (simp add: testSheets_def w100_def)
  have none: "\<forall>s \<in> set [exB, exC, exA].
                 \<not> (productName s = productName_c testConfig \<and>
                    environmentName s = environmentName_c testConfig \<and>
                    isWithinTimeRange (TimeValue (dateNow testHost w100 + 0 * 60000))
                      (startDateTime s) (endDateTime s))"
    by (simp add: exA_def exB_def exC_def mkSchedule_def testConfig_def testHost_def w100_def
        isWithinTimeRange_def)
  show ?thesis
    using checkRelease_no_schedule [OF tz fetch none, of "js ''C1''"] by (simp add: testConfig_def)
qed

text \<open>
  C9. When relevant active schedules exist and posting the approval request fails,
  \<open>checkRelease\<close> returns an error result: a \<open>NetworkError\<close> whose cause is the
  posting error when the post returns an error result, and the catch-all error carrying
  the thrown message when the post throws.  No approved, rejected, timeout or
  no_schedule outcome is produced.
\<close>

theorem checkRelease_post_failure:
  assumes tz: "utcOffset host (or_string (timezone config) (js ''Asia/Tokyo'')) (dateNow host w) = Some offsetMinutes"
    and fetch: "fetchSchedules (sheets services) w = (Resolves (Inr fetched), w1)"
    and some: "findRelevantSchedules fetched (productName_c config) (environmentName_c config)
                 (TimeValue (dateNow host w + offsetMinutes * 60000)) = relevant"
              "relevant \<noteq> []"
    and post: "requestApproval host relevant config (slack services) channelId w1 = (outcome, w2)"
              "outcome = Resolves (Inl e) \<or> outcome = Rejects t"
  shows "checkRelease host config services channelId w =
           Some (Inl (case outcome of
                        Resolves r \<Rightarrow> NetworkError (js ''Failed to post approval request to Slack'') (Some e)
                      | Rejects t' \<Rightarrow> Error (js ''Release check failed: '' @
                          (case t' of ThrownError x \<Rightarrow> error_message x
                                    | ThrownOther \<Rightarrow> js ''Unknown error occurred''))), w2)"
  using tz fetch some post
  by (auto simp add: checkRelease_def getCurrentDateTime_def Let_def caught_def)

theorem checkRelease_post_failure_witness:
  "checkRelease testHost testConfig
     \<lparr>sheets = testSheets (Resolves (Inr [exB, exC, exA])),
      slack = testSlack postFails 0 noReactions\<rparr> (js ''C1'') w0 =
   Some (Inl (NetworkError (js ''Failed to post approval request to Slack'')
                (Some (Error (js ''channel_not_found'')))),
         snd (requestApproval testHost [exA] testConfig (testSlack postFails 0 noReactions) (js ''C1'')
                \<lparr>clock = 60, calls = [FetchSchedules]\<rparr>))"
proof -
  let ?svc = "\<lparr>sheets = testSheets (Resolves (Inr [exB, exC, exA])),
      slack = testSlack postFails 0 noReactions\<rparr>"
  let ?w1 = "\<lparr>clock = 60, calls = [FetchSchedules]\<rparr>"
  have tz: "utcOffset testHost (or_string (timezone testConfig) (js ''Asia/Tokyo''))
              (dateNow testHost w0) = Some 0"
    by (simp add: testHost_def testConfig_def or_string_def)
  have fetch: "fetchSchedules (sheets ?svc) w0 = (Resolves (Inr [exB, exC, exA]), ?w1)"
    by (simp add: testSheets_def w0_def)
  have rel: "findRelevantSchedules [exB, exC, exA] (productName_c testConfig)
               (environmentName_c testConfig) (TimeValue (dateNow testHost w0 + 0 * 60000)) = [exA]"
    by (simp add: findRelevantSchedules_def findActiveSchedules_def isWithinTimeRange_def
        exA_def exB_def exC_def mkSchedule_def testConfig_def testHost_def w0_def)
  have ne: "[exA] \<noteq> []" by simp
  have post: "requestApproval testHost [exA] testConfig (slack ?svc) (js ''C1'') ?w1 =
                (postFails, snd (requestApproval testHost [exA] testConfig (slack ?svc) (js ''C1'') ?w1))"
    by (simp add: requestApproval_def testSlack_def Let_def)
  have out: "postFails = Resolves (Inl (Error (js ''channel_not_found''))) \<or> postFails = Rejects ThrownOther"
    by (simp add: postFails_def)
  show ?thesis
    using checkRelease_post_failure [OF tz fetch rel ne post out] by (simp add: postFails_def)
qed

text \<open>
  C10. Defaults replace every falsy optional value: \<open>waitMinutes = 0\<close> behaves as 20
  (and so does \<open>NaN\<close>, the other falsy number), an empty \<open>approveReaction\<close> as \<open>ok\<close>, an empty \<open>rejectReaction\<close> as \<open>-1\<close>
  and an empty \<open>timezone\<close> as \<open>Asia/Tokyo\<close>.
\<close>

theorem checkRelease_falsy_defaults:
  "checkRelease host (config\<lparr>waitMinutes := Some (Num 0)\<rparr>) =
     checkRelease host (config\<lparr>waitMinutes := Some (Num 20)\<rparr>) \<and>
   checkRelease host (config\<lparr>waitMinutes := Some NaN\<rparr>) =
     checkRelease host (config\<lparr>waitMinutes := Some (Num 20)\<rparr>) \<and>
   checkRelease host (config\<lparr>approveReaction := Some []\<rparr>) =
     checkRelease host (config\<lparr>approveReaction := Some (js ''ok'')\<rparr>) \<and>
   checkRelease host (config\<lparr>rejectReaction := Some []\<rparr>) =
     checkRelease host (config\<lparr>rejectReaction := Some (js ''-1'')\<rparr>) \<and>
   checkRelease host (config\<lparr>timezone := Some []\<rparr>) =
     checkRelease host (config\<lparr>timezone := Some (js ''Asia/Tokyo'')\<rparr>)"
proof -
  have rq: "requestApproval host s (config\<lparr>waitMinutes := Some (Num 0)\<rparr>) =
            requestApproval host s (config\<lparr>waitMinutes := Some (Num 20)\<rparr>)"
       "requestApproval host s (config\<lparr>waitMinutes := Some NaN\<rparr>) =
        requestApproval host s (config\<lparr>waitMinutes := Some (Num 20)\<rparr>)"
       "requestApproval host s (config\<lparr>approveReaction := Some []\<rparr>) =
        requestApproval host s (config\<lparr>approveReaction := Some (js ''ok'')\<rparr>)"
       "requestApproval host s (config\<lparr>rejectReaction := Some []\<rparr>) =
        requestApproval host s (config\<lparr>rejectReaction := Some (js ''-1'')\<rparr>)"
       "requestApproval host s (config\<lparr>timezone := Some []\<rparr>) =
        requestApproval host s (config\<lparr>timezone := Some (js ''Asia/Tokyo'')\<rparr>)" for s
    by (intro ext, simp add: requestApproval_def or_string_def or_number_def)+
  show ?thesis
    by (intro conjI ext; simp add: checkRelease_def rq or_string_def or_number_def Let_def
      cong: sum.case_cong prod.case_cong promise.case_cong option.case_cong if_cong)
qed

theorem checkRelease_falsy_defaults_witness:
  "map_option fst
     (checkRelease testHost (testConfig\<lparr>waitMinutes := Some (Num 0)\<rparr>)
        \<lparr>sheets = testSheets (Resolves (Inr [exA])),
         slack = testSlack postOk 600000 noReactions\<rparr> (js ''C1'') w0) =
   Some (Inr \<lparr>status = timeout,
              message = js ''Release request timed out after 20 minutes. No response received.'',
              approvers = None, schedules = Some [exA]\<rparr>)"
proof -
  have "map_option fst
     (checkRelease testHost (testConfig\<lparr>waitMinutes := Some (Num 20)\<rparr>)
        \<lparr>sheets = testSheets (Resolves (Inr [exA])),
         slack = testSlack postOk 600000 noReactions\<rparr> (js ''C1'') w0) =
   Some (Inr \<lparr>status = timeout,
              message = js ''Release request timed out after 20 minutes. No response received.'',
              approvers = None, schedules = Some [exA]\<rparr>)"
    by (simp add: checkRelease_def getCurrentDateTime_def testHost_def testConfig_def testSheets_def
        testSlack_def w0_def or_string_def or_number_def findRelevantSchedules_def
        findActiveSchedules_def isWithinTimeRange_def exA_def mkSchedule_def requestApproval_def
        postOk_def noReactions_def waitForApproval_def waitLoop.simps decideTick_def Let_def
        double_eval)
  then show ?thesis
    using checkRelease_falsy_defaults [of testHost testConfig, THEN conjunct1] by simp
qed

lemma decideTick_quiet:
  assumes "filter (\<lambda>u. u \<notin> set excludeUserIds)
             (concat (map users (filter (\<lambda>r. name r = rejectReaction') reactions))) = []"
    and "filter (\<lambda>u. u \<notin> set excludeUserIds)
             (concat (map users (filter (\<lambda>r. name r = approveReaction') reactions))) = []"
  shows "decideTick slack' channelId messageTimestamp excludeUserIds approveReaction' rejectReaction'
           reactions w = (Resolves None, w)"
  using assms by (simp add: decideTick_def Let_def)

lemma decideTick_rejected:
  assumes "filter (\<lambda>u. u \<notin> set excludeUserIds)
             (concat (map users (filter (\<lambda>r. name r = rejectReaction') reactions))) = rejectors"
    and "rejectors \<noteq> []"
  shows "decideTick slack' channelId messageTimestamp excludeUserIds approveReaction' rejectReaction'
           reactions w =
         (case getUserInfo slack' (hd rejectors) w of
            (Rejects t, w1) \<Rightarrow> (Rejects t, w1)
          | (Resolves info, w1) \<Rightarrow>
              (case postThreadMessage slack' channelId messageTimestamp
                      ([10060] @ js '' <@'' @ hd rejectors @ js ''> ('' @
                       (case info of Inr u \<Rightarrow> name_u u | Inl e \<Rightarrow> js ''Unknown User'') @ js '') '' @
                       [12364, 25298, 21542, 12375, 12414, 12375, 12383]) w1 of
                 (Rejects t, w2) \<Rightarrow> (Rejects t, w2)
               | (Resolves posted, w2) \<Rightarrow>
                   (Resolves (Some \<lparr>status_a = a_rejected, approvers_a = Some rejectors\<rparr>), w2)))"
proof -
  from assms have "filter (\<lambda>r. name r = rejectReaction') reactions \<noteq> []"
    by auto
  with assms show ?thesis
    by (simp add: decideTick_def Let_def split: prod.splits promise.splits)
qed

lemma decideTick_approved:
  assumes "filter (\<lambda>u. u \<notin> set excludeUserIds)
             (concat (map users (filter (\<lambda>r. name r = rejectReaction') reactions))) = []"
    and "filter (\<lambda>u. u \<notin> set excludeUserIds)
             (concat (map users (filter (\<lambda>r. name r = approveReaction') reactions))) = approvers'"
    and "approvers' \<noteq> []"
  shows "decideTick slack' channelId messageTimestamp excludeUserIds approveReaction' rejectReaction'
           reactions w =
         (case getUserInfo slack' (hd approvers') w of
            (Rejects t, w1) \<Rightarrow> (Rejects t, w1)
          | (Resolves info, w1) \<Rightarrow>
              (case postThreadMessage slack' channelId messageTimestamp
                      ([9989] @ js '' <@'' @ hd approvers' @ js ''> ('' @
                       (case info of Inr u \<Rightarrow> name_u u | Inl e \<Rightarrow> js ''Unknown User'') @ js '') '' @
                       [12364, 25215, 35469, 12375, 12414, 12375, 12383]) w1 of
                 (Rejects t, w2) \<Rightarrow> (Rejects t, w2)
               | (Resolves posted, w2) \<Rightarrow>
                   (Resolves (Some \<lparr>status_a = a_approved, approvers_a = Some approvers'\<rparr>), w2)))"
proof -
  from assms(2,3) have "filter (\<lambda>r. name r = approveReaction') reactions \<noteq> []"
    by auto
  with assms show ?thesis
    by (simp add: decideTick_def Let_def split: prod.splits promise.splits)
qed


text \<open>
  With the client of the repository a tick never throws.
\<close>

lemma decideTick_SlackWebClient:
  "\<exists>r w'. decideTick (SlackWebClient api) channelId messageTimestamp excludeUserIds
             approveReaction' rejectReaction' reactions w = (Resolves r, w')"
proof -
  define rejectors where "rejectors = filter (\<lambda>u. u \<notin> set excludeUserIds)
                       (concat (map users (filter (\<lambda>r. name r = rejectReaction') reactions)))"
  define approvers' where "approvers' = filter (\<lambda>u. u \<notin> set excludeUserIds)
                       (concat (map users (filter (\<lambda>r. name r = approveReaction') reactions)))"
  have announce: "\<exists>r w'. (case getUserInfo (SlackWebClient api) u w of
            (Rejects t, w1) \<Rightarrow> (Rejects t, w1)
          | (Resolves info, w1) \<Rightarrow>
              (case postThreadMessage (SlackWebClient api) channelId messageTimestamp (reply info) w1 of
                 (Rejects t, w2) \<Rightarrow> (Rejects t, w2)
               | (Resolves posted, w2) \<Rightarrow> (Resolves (Some a), w2))) = (Resolves r, w')"
    for u a and reply :: "UserInfo Result \<Rightarrow> jsstring"
  proof -
    obtain info w1 where 1: "getUserInfo (SlackWebClient api) u w = (Resolves info, w1)"
      using SlackWebClient_resolves(4) [of api u w] by blast
    obtain posted w2 where
      "postThreadMessage (SlackWebClient api) channelId messageTimestamp (reply info) w1 =
         (Resolves posted, w2)"
      using SlackWebClient_resolves(3) [of api channelId messageTimestamp "reply info" w1] by blast
    with 1 show ?thesis by simp
  qed
  show ?thesis
  proof (cases "rejectors \<noteq> []")
    case True
    show ?thesis
      unfolding decideTick_rejected [OF rejectors_def [symmetric] True]
      by (rule announce)
  next
    case False
    then have R: "filter (\<lambda>u. u \<notin> set excludeUserIds)
             (concat (map users (filter (\<lambda>r. name r = rejectReaction') reactions))) = []"
      by (simp add: rejectors_def)
    show ?thesis
    proof (cases "approvers' \<noteq> []")
      case True
      show ?thesis
        unfolding decideTick_approved [OF R approvers'_def [symmetric] True]
        by (rule announce)
    next
      case F2: False
      then have A: "filter (\<lambda>u. u \<notin> set excludeUserIds)
             (concat (map users (filter (\<lambda>r. name r = approveReaction') reactions))) = []"
        by (simp add: approvers'_def)
      show ?thesis
        unfolding decideTick_quiet [OF R A] by blast
    qed
  qed
qed






section \<open>The timeout of the polling loop\<close>

lemma num_lt_not_finite [simp]: "num_lt x NaN = False" "num_lt x NegInf = False"
  by (cases x; simp)+













section \<open>Properties of the calendar operations\<close>

lemma div_sandwich:
  fixes a k :: int
  assumes "0 < k"
  shows "k * (a div k) \<le> a" "a < k * (a div k) + k"
  using mult_div_mod_eq [of k a] pos_mod_sign [OF assms, of a] pos_mod_bound [OF assms, of a]
  by linarith+

lemma div_step:
  fixes a k :: int
  assumes "0 < k"
  shows "(a + 1) div k = (if (a + 1) mod k = 0 then a div k + 1 else a div k)"
proof -
  define q r where "q = a div k" and "r = a mod k"
  have a: "a = k * q + r" and r: "0 \<le> r" "r < k"
    using assms by (simp_all add: q_def r_def)
  show ?thesis
  proof (cases "r = k - 1")
    case True
    with a have "a + 1 = k * (q + 1) + 0" by (simp add: algebra_simps)
    from int_div_pos_eq [OF this] int_mod_pos_eq [OF this] assms
    show ?thesis by (simp add: q_def)
  next
    case False
    with r have r1: "0 \<le> r + 1" "r + 1 < k" by simp_all
    from a have "a + 1 = k * q + (r + 1)" by simp
    from int_div_pos_eq [OF this r1] int_mod_pos_eq [OF this r1] r
    show ?thesis by (simp add: q_def)
  qed
qed

lemma leap_mods:
  "(y - 1968) mod 4 = 0 \<longleftrightarrow> y mod 4 = 0"
  "(y - 1900) mod 100 = 0 \<longleftrightarrow> y mod 100 = 0"
  "(y - 1600) mod 400 = 0 \<longleftrightarrow> y mod 400 = 0" for y :: int
proof -
  have "(y - 1968) mod 4 = (y + 4 * (- 492)) mod 4" by simp
  also have "\<dots> = y mod 4" by (rule mod_mult_self2)
  finally show "(y - 1968) mod 4 = 0 \<longleftrightarrow> y mod 4 = 0" by simp
  have "(y - 1900) mod 100 = (y + 100 * (- 19)) mod 100" by simp
  also have "\<dots> = y mod 100" by (rule mod_mult_self2)
  finally show "(y - 1900) mod 100 = 0 \<longleftrightarrow> y mod 100 = 0" by simp
  have "(y - 1600) mod 400 = (y + 400 * (- 4)) mod 400" by simp
  also have "\<dots> = y mod 400" by (rule mod_mult_self2)
  finally show "(y - 1600) mod 400 = 0 \<longleftrightarrow> y mod 400 = 0" by simp
qed

lemma DayFromYear_Suc: "DayFromYear (y + 1) = DayFromYear y + DaysInYear y"
proof -
  have 1: "(y + 1 - 1969) div 4 = (if y mod 4 = 0 then (y - 1969) div 4 + 1 else (y - 1969) div 4)"
    using div_step [of 4 "y - 1969"] leap_mods(1) [of y] by (simp add: algebra_simps)
  have 2: "(y + 1 - 1901) div 100 = (if y mod 100 = 0 then (y - 1901) div 100 + 1 else (y - 1901) div 100)"
    using div_step [of 100 "y - 1901"] leap_mods(2) [of y] by (simp add: algebra_simps)
  have 3: "(y + 1 - 1601) div 400 = (if y mod 400 = 0 then (y - 1601) div 400 + 1 else (y - 1601) div 400)"
    using div_step [of 400 "y - 1601"] leap_mods(3) [of y] by (simp add: algebra_simps)
  have m: "y mod 400 = 0 \<Longrightarrow> y mod 100 = 0" "y mod 100 = 0 \<Longrightarrow> y mod 4 = 0"
    by (auto simp: mod_eq_0_iff_dvd elim: dvd_trans [rotated])
  show ?thesis
    unfolding DayFromYear_def DaysInYear_def 1 2 3 using m by auto
qed

lemma DayFromYear_bounds:
  "146097 * (y - 1970) - 506 \<le> 400 * DayFromYear y"
  "400 * DayFromYear y \<le> 146097 * (y - 1970) + 589"
proof -
  note s4 = div_sandwich [where k = 4 and a = "y - 1969", simplified]
  note s100 = div_sandwich [where k = 100 and a = "y - 1901", simplified]
  note s400 = div_sandwich [where k = 400 and a = "y - 1601", simplified]
  have e: "400 * DayFromYear y =
      146000 * y - 287620000 + 400 * ((y - 1969) div 4) - 400 * ((y - 1901) div 100) +
      400 * ((y - 1601) div 400)"
    by (simp add: DayFromYear_def algebra_simps)
  show "146097 * (y - 1970) - 506 \<le> 400 * DayFromYear y"
    unfolding e using s4 s100 s400 by (simp add: algebra_simps)
  show "400 * DayFromYear y \<le> 146097 * (y - 1970) + 589"
    unfolding e using s4 s100 s400 by (simp add: algebra_simps)
qed

lemma YearFromDay_spec:
  "DayFromYear (YearFromDay d) \<le> d" "d < DayFromYear (YearFromDay d + 1)"
proof -
  define y where "y = 1970 + (400 * d) div 146097"
  have lo: "146097 * (y - 1970) \<le> 400 * d" and hi: "400 * d < 146097 * (y - 1970) + 146097"
    unfolding y_def using div_sandwich [where k = 146097 and a = "400 * d", simplified]
    by simp_all
  have A: "d < DayFromYear (y + 2)"
    using DayFromYear_bounds(1) [of "y + 2"] hi by (simp add: algebra_simps)
  have B: "DayFromYear (y - 1) \<le> d"
    using DayFromYear_bounds(2) [of "y - 1"] lo by (simp add: algebra_simps)
  have Y: "YearFromDay d =
      (if DayFromYear (y + 1) \<le> d then y + 1 else if d < DayFromYear y then y - 1 else y)"
    by (simp add: YearFromDay_def Let_def y_def)
  have two: "y + 1 + 1 = y + 2" by simp
  show "DayFromYear (YearFromDay d) \<le> d"
    unfolding Y using B by simp
  show "d < DayFromYear (YearFromDay d + 1)"
    unfolding Y using A by (simp add: two)
qed

lemma DayFromYear_mono: "y \<le> z \<Longrightarrow> DayFromYear y \<le> DayFromYear z"
proof (induction "nat (z - y)" arbitrary: z)
  case 0
  then show ?case by simp
next
  case (Suc n)
  then have "n = nat ((z - 1) - y)" "y \<le> z - 1" by linarith+
  then have "DayFromYear y \<le> DayFromYear (z - 1)" using Suc(1) by blast
  moreover have "DayFromYear (z - 1) \<le> DayFromYear z"
    using DayFromYear_Suc [of "z - 1"] by (simp add: DaysInYear_def)
  ultimately show ?case by linarith
qed

lemma YearFromDay_unique:
  assumes "DayFromYear y \<le> d" "d < DayFromYear (y + 1)"
  shows "YearFromDay d = y"
proof (rule ccontr)
  assume ne: "YearFromDay d \<noteq> y"
  show False
  proof (cases "YearFromDay d < y")
    case True
    then have "DayFromYear (YearFromDay d + 1) \<le> DayFromYear y"
      by (intro DayFromYear_mono) simp
    with YearFromDay_spec(2) [of d] assms show False by linarith
  next
    case False
    with ne have "DayFromYear (y + 1) \<le> DayFromYear (YearFromDay d)"
      by (intro DayFromYear_mono) simp
    with YearFromDay_spec(1) [of d] assms show False by linarith
  qed
qed

lemma DaysInYear_cases: "DaysInYear y = 365 \<or> DaysInYear y = 366"
  by (simp add: DaysInYear_def)

lemma DayWithinYear_range: "0 \<le> DayWithinYear t" "DayWithinYear t < DaysInYear (YearFromTime t)"
  using YearFromDay_spec [of "Day t"] DayFromYear_Suc [of "YearFromTime t"]
  by (simp_all add: DayWithinYear_def YearFromTime_def)

lemma MonthFromTime_range: "0 \<le> MonthFromTime t" "MonthFromTime t \<le> 11"
  by (simp_all add: MonthFromTime_def Let_def)

lemma DateFromTime_range:
  "1 \<le> DateFromTime t" "DateFromTime t \<le> DaysInMonth (YearFromTime t) (MonthFromTime t + 1)"
proof -
  note r = DayWithinYear_range [of t]
  consider "DaysInYear (YearFromTime t) = 365" | "DaysInYear (YearFromTime t) = 366"
    using DaysInYear_cases by blast
  then have "1 \<le> DateFromTime t \<and> DateFromTime t \<le> DaysInMonth (YearFromTime t) (MonthFromTime t + 1)"
  proof cases
    case 1
    with r show ?thesis
      by (simp add: DateFromTime_def MonthFromTime_def DaysInMonth_def InLeapYear_def Let_def)
  next
    case 2
    with r show ?thesis
      by (simp add: DateFromTime_def MonthFromTime_def DaysInMonth_def InLeapYear_def Let_def)
  qed
  then show "1 \<le> DateFromTime t" "DateFromTime t \<le> DaysInMonth (YearFromTime t) (MonthFromTime t + 1)"
    by simp_all
qed

lemma time_ranges:
  "0 \<le> HourFromTime t" "HourFromTime t < 24"
  "0 \<le> MinFromTime t" "MinFromTime t < 60"
  "0 \<le> SecFromTime t" "SecFromTime t < 60"
  by (simp_all add: HourFromTime_def MinFromTime_def SecFromTime_def)

lemma Day_MakeDate:
  assumes "0 \<le> tod" "tod < 86400000"
  shows "Day (MakeDate day tod) = day"
  unfolding Day_def MakeDate_def
  by (rule int_div_pos_eq [of _ _ _ tod]) (use assms in simp_all)

lemma month_cases:
  fixes m :: int
  assumes "0 \<le> m" "m \<le> 11"
  shows "m = 0 \<or> m = 1 \<or> m = 2 \<or> m = 3 \<or> m = 4 \<or> m = 5 \<or> m = 6 \<or> m = 7 \<or> m = 8 \<or>
         m = 9 \<or> m = 10 \<or> m = 11"
  using assms by arith

lemma civil_roundtrip:
  assumes m: "0 \<le> m" "m \<le> 11"
    and d: "1 \<le> dt" "dt \<le> DaysInMonth y (m + 1)"
    and tod: "0 \<le> tod" "tod < 86400000"
  shows "YearFromTime (MakeDate (MakeDay y m dt) tod) = y \<and>
         MonthFromTime (MakeDate (MakeDay y m dt) tod) = m \<and>
         DateFromTime (MakeDate (MakeDay y m dt) tod) = dt"
proof -
  let ?t = "MakeDate (MakeDay y m dt) tod"
  define l :: int where "l = (if DaysInYear y = 365 then 0 else 1)"
  have l01: "l = 0 \<or> l = 1" by (simp add: l_def)
  have diy: "DaysInYear y = 365 + l"
    using DaysInYear_cases [of y] by (auto simp: l_def)
  have dim: "DaysInMonth y 2 = 28 + l"
    using DaysInYear_cases [of y] by (auto simp: l_def DaysInMonth_def)
  have mm: "m div 12 = 0" "m mod 12 = m" using m by simp_all
  have day: "Day ?t = DayFromYear y + monthStart m l + dt - 1"
    by (simp add: Day_MakeDate [OF tod] MakeDay_def mm l_def Let_def)
  have off: "0 \<le> monthStart m l + dt - 1 \<and> monthStart m l + dt - 1 < DaysInYear y"
    using month_cases [OF m] d l01 unfolding diy
    by (elim disjE; simp add: monthStart_def dim; simp add: DaysInMonth_def)
  have yr: "YearFromTime ?t = y"
    unfolding YearFromTime_def day
    by (rule YearFromDay_unique) (use off DayFromYear_Suc [of y] in simp_all)
  have dwy: "DayWithinYear ?t = monthStart m l + dt - 1"
    by (simp add: DayWithinYear_def yr day)
  have leap: "InLeapYear ?t = l"
    by (simp add: InLeapYear_def yr l_def)
  have mo: "MonthFromTime ?t = m"
    unfolding MonthFromTime_def dwy leap Let_def
    using month_cases [OF m] d l01
    by (elim disjE; simp add: monthStart_def dim; simp add: DaysInMonth_def)
  have da: "DateFromTime ?t = dt"
    unfolding DateFromTime_def mo dwy leap Let_def
    using month_cases [OF m]
    by (elim disjE; simp add: monthStart_def)
  from yr mo da show ?thesis by simp
qed

lemma time_roundtrip:
  assumes "0 \<le> h" "h < 24" "0 \<le> mi" "mi < 60" "0 \<le> s" "s < 60"
  shows "0 \<le> MakeTime h mi s 0" "MakeTime h mi s 0 < 86400000"
    "HourFromTime (MakeDate day (MakeTime h mi s 0)) = h"
    "MinFromTime (MakeDate day (MakeTime h mi s 0)) = mi"
    "SecFromTime (MakeDate day (MakeTime h mi s 0)) = s"
proof -
  let ?t = "day * 86400000 + (h * 3600000 + mi * 60000 + s * 1000)"
  show "0 \<le> MakeTime h mi s 0" "MakeTime h mi s 0 < 86400000"
    using assms by (simp_all add: MakeTime_def)
  have "?t div 3600000 = day * 24 + h"
    by (rule int_div_pos_eq [of _ _ _ "mi * 60000 + s * 1000"]) (use assms in simp_all)
  moreover have "(day * 24 + h) mod 24 = h"
    by (rule int_mod_pos_eq [of _ _ day]) (use assms in simp_all)
  ultimately show "HourFromTime (MakeDate day (MakeTime h mi s 0)) = h"
    by (simp add: HourFromTime_def MakeDate_def MakeTime_def)
  have "?t div 60000 = (day * 1440 + h * 60) + mi"
    by (rule int_div_pos_eq [of _ _ _ "s * 1000"]) (use assms in simp_all)
  moreover have "((day * 1440 + h * 60) + mi) mod 60 = mi"
    by (rule int_mod_pos_eq [of _ _ "day * 24 + h"]) (use assms in simp_all)
  ultimately show "MinFromTime (MakeDate day (MakeTime h mi s 0)) = mi"
    by (simp add: MinFromTime_def MakeDate_def MakeTime_def)
  have e1: "?t div 1000 = (day * 86400 + h * 3600 + mi * 60) + s"
    by (rule int_div_pos_eq [of _ _ _ 0]) (use assms in simp_all)
  have e2: "((day * 86400 + h * 3600 + mi * 60) + s) mod 60 = s"
    by (rule int_mod_pos_eq [of _ _ "day * 1440 + h * 60 + mi"]) (use assms in simp_all)
  have "SecFromTime (MakeDate day (MakeTime h mi s 0)) = (?t div 1000) mod 60"
    by (simp add: SecFromTime_def MakeDate_def MakeTime_def)
  also have "\<dots> = s" unfolding e1 by (rule e2)
  finally show "SecFromTime (MakeDate day (MakeTime h mi s 0)) = s" .
qed

section \<open>Properties of the schedule row parser\<close>

subsection \<open>The regular expression\<close>

lemma digit_not_space: "isDigit c \<Longrightarrow> \<not> isWhiteSpace c"
  by (auto simp: isDigit_def isWhiteSpace_def)

lemma not_digit_sep [simp]: "\<not> isDigit 47" "\<not> isDigit 58"
  by (simp_all add: isDigit_def)

lemma take_digits_sound:
  "take_digits n s = (ds, r) \<Longrightarrow> s = ds @ r \<and> list_all isDigit ds \<and> length ds \<le> n"
proof (induction n s arbitrary: ds r rule: take_digits.induct)
  case (3 n c s)
  then show ?case
    by (auto split: if_splits prod.splits)
qed auto

lemma take_digits_complete:
  assumes "list_all isDigit ds" "length ds \<le> n"
    and "length ds = n \<or> r = [] \<or> \<not> isDigit (hd r)"
  shows "take_digits n (ds @ r) = (ds, r)"
  using assms
proof (induction ds arbitrary: n)
  case Nil
  then show ?case
    by (cases n; cases r) auto
next
  case (Cons c ds)
  then obtain k where n: "n = Suc k" by (cases n) auto
  with Cons show ?case by auto
qed

lemma digits4_iff:
  "digits4 s = Some (ds, r) \<longleftrightarrow> s = ds @ r \<and> length ds = 4 \<and> list_all isDigit ds"
proof
  assume "digits4 s = Some (ds, r)"
  then show "s = ds @ r \<and> length ds = 4 \<and> list_all isDigit ds"
    using take_digits_sound [of 4 s]
    by (auto simp: digits4_def split: prod.splits if_splits)
next
  assume "s = ds @ r \<and> length ds = 4 \<and> list_all isDigit ds"
  then show "digits4 s = Some (ds, r)"
    using take_digits_complete [of ds 4 r] by (simp add: digits4_def)
qed

lemma digits12_sound:
  assumes "digits12 s = Some (ds, r)"
  shows "s = ds @ r" "one_or_two_digits ds" "length ds = 1 \<longrightarrow> r = [] \<or> \<not> isDigit (hd r)"
proof -
  from assms have t: "take_digits 2 s = (ds, r)" and ne: "ds \<noteq> []"
    by (auto simp: digits12_def split: prod.splits if_splits)
  from ne have "length ds \<noteq> 0" by simp
  with take_digits_sound [OF t]
  show "s = ds @ r" "one_or_two_digits ds"
    unfolding one_or_two_digits_def by (simp, simp, arith)
  show "length ds = 1 \<longrightarrow> r = [] \<or> \<not> isDigit (hd r)"
  proof (intro impI)
    assume "length ds = 1"
    then obtain c where c: "ds = [c]" by (cases ds) auto
    show "r = [] \<or> \<not> isDigit (hd r)"
    proof (rule ccontr)
      assume "\<not> (r = [] \<or> \<not> isDigit (hd r))"
      then obtain x xs where r: "r = x # xs" "isDigit x" by (cases r) auto
      from take_digits_sound [OF t] c r have "take_digits 2 s = ([c, x], xs)"
        by (simp add: numeral_2_eq_2)
      with t c show False by simp
    qed
  qed
qed

lemma digits12_complete:
  assumes "one_or_two_digits ds" "r = [] \<or> \<not> isDigit (hd r)"
  shows "digits12 (ds @ r) = Some (ds, r)"
  using assms take_digits_complete [of ds 2 r]
  by (auto simp: digits12_def one_or_two_digits_def)

lemma literal_iff: "literal c s = Some r \<longleftrightarrow> s = c # r"
  by (auto simp: literal_def split: list.splits)

lemma spaces_sound:
  assumes "spaces s = Some r"
  shows "\<exists>W. s = W @ r \<and> W \<noteq> [] \<and> list_all isWhiteSpace W"
proof -
  from assms obtain x xs where s: "s = x # xs" "isWhiteSpace x" "r = dropWhile isWhiteSpace xs"
    by (auto simp: spaces_def split: list.splits if_splits)
  let ?W = "x # takeWhile isWhiteSpace xs"
  have "s = ?W @ r" using s by simp
  moreover have "list_all isWhiteSpace ?W"
    using s(2) by (auto simp: list_all_iff dest: set_takeWhileD)
  ultimately show ?thesis by blast
qed

lemma spaces_complete:
  assumes "W \<noteq> []" "list_all isWhiteSpace W" "r \<noteq> []" "\<not> isWhiteSpace (hd r)"
  shows "spaces (W @ r) = Some r"
proof -
  from assms(1) obtain x xs where W: "W = x # xs" by (cases W) auto
  from assms(3) obtain y ys where r: "r = y # ys" by (cases r) auto
  have "dropWhile isWhiteSpace (xs @ r) = dropWhile isWhiteSpace r"
    using assms(2) W by (intro dropWhile_append2) (auto simp: list_all_iff)
  also have "\<dots> = r" using assms(4) r by simp
  finally show ?thesis using assms(2) W by (simp add: spaces_def)
qed

lemma one_or_two_digits_hd:
  "one_or_two_digits ds \<Longrightarrow> ds \<noteq> [] \<and> isDigit (hd ds)"
  by (cases ds) (auto simp: one_or_two_digits_def)

lemma match_complete:
  assumes "datetime_pattern s Y M D W H Mi S"
  shows "match_regex s = Some (Y, M, D, H, Mi, S)"
proof -
  let ?tail = "(case S of None \<Rightarrow> [] | Some x \<Rightarrow> [58] @ x)"
  let ?r8 = "Mi @ ?tail"
  let ?r6 = "H @ 58 # ?r8"
  let ?r5 = "W @ ?r6"
  let ?r4 = "D @ ?r5"
  let ?r2 = "M @ 47 # ?r4"
  from assms have s: "s = Y @ 47 # ?r2"
    and Y: "length Y = 4" "list_all isDigit Y"
    and M: "one_or_two_digits M" and D: "one_or_two_digits D"
    and W: "W \<noteq> []" "list_all isWhiteSpace W"
    and H: "one_or_two_digits H" and Mi: "one_or_two_digits Mi"
    and S: "case S of None \<Rightarrow> True | Some x \<Rightarrow> one_or_two_digits x"
    by (simp_all add: datetime_pattern_def)
  have 1: "digits4 s = Some (Y, 47 # ?r2)"
    using s Y by (simp add: digits4_iff)
  have 2: "digits12 ?r2 = Some (M, 47 # ?r4)"
    by (rule digits12_complete [OF M]) simp
  have hdW: "\<not> isDigit (hd ?r5)"
    using W by (cases W) (auto simp: digit_not_space)
  have 3: "digits12 ?r4 = Some (D, ?r5)"
    by (rule digits12_complete [OF D]) (use hdW in simp)
  have 4: "spaces ?r5 = Some ?r6"
    using one_or_two_digits_hd [OF H]
    by (intro spaces_complete W) (auto simp: digit_not_space)
  have 5: "digits12 ?r6 = Some (H, 58 # ?r8)"
    by (rule digits12_complete [OF H]) simp
  have 6: "digits12 ?r8 = Some (Mi, ?tail)"
    by (rule digits12_complete [OF Mi]) (simp split: option.splits)
  show ?thesis
  proof (cases S)
    case None
    with 1 2 3 4 5 6 show ?thesis
      by (simp add: match_regex_def literal_def)
  next
    case (Some x)
    with S have "digits12 (x @ []) = Some (x, [])"
      by (intro digits12_complete) simp_all
    with Some 1 2 3 4 5 6 show ?thesis
      by (simp add: match_regex_def literal_def)
  qed
qed

lemma digits12_soundE:
  assumes "digits12 s = Some (ds, r)"
  shows "s = ds @ r \<and> one_or_two_digits ds"
  using digits12_sound [OF assms] by simp

lemma match_sound:
  assumes "match_regex s = Some (Y, M, D, H, Mi, S)"
  shows "\<exists>W. datetime_pattern s Y M D W H Mi S"
proof -
  from assms obtain y r1 r2 m r3 r4 d r5 r6 h r7 r8 mi r9 where
        1: "digits4 s = Some (y, r1)" and 2: "literal 47 r1 = Some r2"
    and 3: "digits12 r2 = Some (m, r3)" and 4: "literal 47 r3 = Some r4"
    and 5: "digits12 r4 = Some (d, r5)" and 6: "spaces r5 = Some r6"
    and 7: "digits12 r6 = Some (h, r7)" and 8: "literal 58 r7 = Some r8"
    and 9: "digits12 r8 = Some (mi, r9)"
    and 10: "(if r9 = [] then Some (y, m, d, h, mi, None)
              else literal 58 r9 \<bind> (\<lambda>r10. digits12 r10 \<bind> (\<lambda>(second, r11).
                     if r11 = [] then Some (y, m, d, h, mi, Some second) else None)))
             = Some (Y, M, D, H, Mi, S)"
    unfolding match_regex_def
    by (auto simp: bind_eq_Some_conv split: prod.splits)
  from 6 obtain W where W: "r5 = W @ r6" "W \<noteq> []" "list_all isWhiteSpace W"
    using spaces_sound by blast
  note d3 = digits12_sound [OF 3] and d5 = digits12_sound [OF 5] and d7 = digits12_sound [OF 7]
    and d9 = digits12_sound [OF 9]
  from 1 have y: "s = y @ r1" "length y = 4" "list_all isDigit y"
    by (simp_all add: digits4_iff)
  have pre: "s = y @ 47 # m @ 47 # d @ W @ h @ 58 # mi @ r9"
    using y(1) 2 d3(1) 4 d5(1) W(1) d7(1) 8 d9(1) by (simp add: literal_iff)
  show ?thesis
  proof (cases "r9 = []")
    case True
    with 10 have "Y = y" "M = m" "D = d" "H = h" "Mi = mi" "S = None" by simp_all
    with pre True y d3(2) d5(2) d7(2) d9(2) W have "datetime_pattern s Y M D W H Mi S"
      by (simp add: datetime_pattern_def)
    then show ?thesis ..
  next
    case False
    with 10 obtain r10 sec where e: "literal 58 r9 = Some r10" "digits12 r10 = Some (sec, [])"
      "Y = y" "M = m" "D = d" "H = h" "Mi = mi" "S = Some sec"
      by (auto simp: bind_eq_Some_conv split: prod.splits if_splits)
    note ds = digits12_sound [OF e(2)]
    from e(1) ds(1) have "r9 = 58 # sec" by (simp add: literal_iff)
    with pre e y d3(2) d5(2) d7(2) d9(2) ds(2) W have "datetime_pattern s Y M D W H Mi S"
      by (simp add: datetime_pattern_def)
    then show ?thesis ..
  qed
qed

lemma match_regex_iff:
  "match_regex s = Some (Y, M, D, H, Mi, S) \<longleftrightarrow> (\<exists>W. datetime_pattern s Y M D W H Mi S)"
  using match_sound match_complete by blast

lemma match_regex_None_iff:
  "match_regex s = None \<longleftrightarrow> (\<forall>Y M D W H Mi S. \<not> datetime_pattern s Y M D W H Mi S)"
proof
  assume "match_regex s = None"
  then show "\<forall>Y M D W H Mi S. \<not> datetime_pattern s Y M D W H Mi S"
    using match_complete by fastforce
next
  assume a: "\<forall>Y M D W H Mi S. \<not> datetime_pattern s Y M D W H Mi S"
  show "match_regex s = None"
  proof (cases "match_regex s")
    case (Some f)
    obtain Y M D H Mi S where "f = (Y, M, D, H, Mi, S)" by (cases f) auto
    with Some match_sound a show ?thesis by blast
  qed simp
qed

subsection \<open>Digits, blanks and the range of time values\<close>

lemma parseInt_snoc: "parseInt (ds @ [c]) = 10 * parseInt ds + (int c - 48)"
  by (simp add: parseInt_def)

lemma parseInt_bounds:
  "list_all isDigit ds \<Longrightarrow> 0 \<le> parseInt ds \<and> parseInt ds < 10 ^ length ds"
proof (induction ds rule: rev_induct)
  case Nil
  then show ?case by (simp add: parseInt_def)
next
  case (snoc c ds)
  then have "0 \<le> parseInt ds" "parseInt ds < 10 ^ length ds" "48 \<le> c" "c \<le> 57"
    by (simp_all add: isDigit_def)
  then show ?case
    by (simp add: parseInt_snoc)
qed

lemma parseInt_12: "one_or_two_digits ds \<Longrightarrow> 0 \<le> parseInt ds \<and> parseInt ds \<le> 99"
  using parseInt_bounds [of ds] by (auto simp: one_or_two_digits_def)

lemma parseInt_4: "list_all isDigit ds \<Longrightarrow> length ds = 4 \<Longrightarrow> 0 \<le> parseInt ds \<and> parseInt ds \<le> 9999"
  using parseInt_bounds [of ds] by auto

lemma pattern_not_blank:
  assumes "datetime_pattern s Y M D W H Mi S"
  shows "s \<noteq> []" "trim s \<noteq> []"
proof -
  from assms obtain c cs r where s: "s = c # cs @ r" and c: "isDigit c"
    by (cases Y) (auto simp: datetime_pattern_def)
  show "s \<noteq> []" using s by simp
  from c have "\<not> isWhiteSpace c" by (rule digit_not_space)
  then have "dropWhile isWhiteSpace s = s" using s by simp
  moreover have "\<not> (\<forall>x \<in> set s. isWhiteSpace x)"
    using s \<open>\<not> isWhiteSpace c\<close> by auto
  ultimately show "trim s \<noteq> []"
    by (simp add: trim_def dropWhile_eq_Nil_conv)
qed

lemma MakeDay_bounds:
  assumes "100 \<le> y" "y \<le> 9999" "0 \<le> m" "m \<le> 11" "1 \<le> d" "d \<le> 31"
  shows "- 700000 \<le> MakeDay y m d" "MakeDay y m d \<le> 3000000"
proof -
  have mm: "m div 12 = 0" "m mod 12 = m" using assms by simp_all
  have ms: "0 \<le> monthStart m l \<and> monthStart m l \<le> 334 + l" if "0 \<le> l" for l
    using that by (simp add: monthStart_def)
  note b = DayFromYear_bounds [of y]
  have lo: "- 700000 \<le> DayFromYear y" and hi: "DayFromYear y \<le> 2990000"
    using b assms(1,2) by (simp_all add: algebra_simps)
  show "- 700000 \<le> MakeDay y m d" "MakeDay y m d \<le> 3000000"
    using lo hi ms [of 0] ms [of 1] assms
    by (auto simp: MakeDay_def mm Let_def)
qed

lemma DaysInMonth_le: "DaysInMonth y m \<le> 31"
  by (simp add: DaysInMonth_def)

subsection \<open>The constructed date read back\<close>

lemma parse_valid:
  assumes offsets: "\<forall>t u. \<bar>tza t u\<bar> \<le> 86400000"
    and y: "100 \<le> y" "y \<le> 9999"
    and valid: "calendar_valid y m d h mi sec"
    and exists: "LocalTime tza (UTC tza (wallClock y m d h mi sec)) = wallClock y m d h mi sec"
  shows "new_Date tza y (m - 1) d h mi sec = TimeValue (UTC tza (wallClock y m d h mi sec))"
    and "getFullYear tza (new_Date tza y (m - 1) d h mi sec) = Some y"
    and "getMonth tza (new_Date tza y (m - 1) d h mi sec) = Some (m - 1)"
    and "getDate tza (new_Date tza y (m - 1) d h mi sec) = Some d"
    and "getHours tza (new_Date tza y (m - 1) d h mi sec) = Some h"
    and "getMinutes tza (new_Date tza y (m - 1) d h mi sec) = Some mi"
    and "getSeconds tza (new_Date tza y (m - 1) d h mi sec) = Some sec"
proof -
  let ?day = "MakeDay y (m - 1) d"
  let ?tod = "MakeTime h mi sec 0"
  let ?L = "MakeDate ?day ?tod"
  have wc: "wallClock y m d h mi sec = ?L" by (simp add: wallClock_def)
  from valid have v: "0 \<le> m - 1" "m - 1 \<le> 11" "1 \<le> d" "d \<le> DaysInMonth y (m - 1 + 1)"
      "0 \<le> h" "h < 24" "0 \<le> mi" "mi < 60" "0 \<le> sec" "sec < 60"
    by (simp_all add: calendar_valid_def)
  note tr = time_roundtrip(1,2) [OF v(5-10)]
  note tg = time_roundtrip(3-5) [OF v(5-10), where day = ?day]
  note cr = civil_roundtrip [OF v(1-4) tr(1,2)]
  have d31: "d \<le> 31" using v(4) DaysInMonth_le [of y "m - 1 + 1"] by linarith
  note mb = MakeDay_bounds [OF y v(1,2,3) d31]
  have Lb: "- 700000 * 86400000 \<le> ?L" "?L \<le> 3000000 * 86400000 + 86400000"
    using mb tr(1,2) by (simp_all add: MakeDate_def)
  have yr: "(if 0 \<le> y \<and> y \<le> 99 then 1900 + y else y) = y" using y by simp
  have off: "\<bar>tza ?L False\<bar> \<le> 86400000" using offsets by blast
  have clip: "\<not> \<bar>UTC tza ?L\<bar> > 8640000000000000"
    unfolding UTC_def using Lb off by linarith
  show nd: "new_Date tza y (m - 1) d h mi sec = TimeValue (UTC tza (wallClock y m d h mi sec))"
    unfolding new_Date_def yr Let_def TimeClip_def wc using clip by simp
  have lt: "LocalTime tza (UTC tza ?L) = ?L"
    using exists by (simp add: wc)
  show "getFullYear tza (new_Date tza y (m - 1) d h mi sec) = Some y"
    and "getMonth tza (new_Date tza y (m - 1) d h mi sec) = Some (m - 1)"
    and "getDate tza (new_Date tza y (m - 1) d h mi sec) = Some d"
    and "getHours tza (new_Date tza y (m - 1) d h mi sec) = Some h"
    and "getMinutes tza (new_Date tza y (m - 1) d h mi sec) = Some mi"
    and "getSeconds tza (new_Date tza y (m - 1) d h mi sec) = Some sec"
    using cr tg by (simp_all add: nd wc lt)
qed

lemma fixed_zone_exists:
  assumes "\<forall>t u. tza t u = offset"
  shows "LocalTime tza (UTC tza L) = L"
  using assms by (simp add: LocalTime_def UTC_def)

lemma parse_getters_valid:
  assumes "getFullYear tza date = Some y" "getMonth tza date = Some (m - 1)"
    "getDate tza date = Some d" "getHours tza date = Some h"
    "getMinutes tza date = Some mi" "getSeconds tza date = Some sec"
  shows "calendar_valid y m d h mi sec"
proof (cases date)
  case InvalidDate
  with assms show ?thesis by simp
next
  case (TimeValue t)
  let ?L = "LocalTime tza t"
  from assms TimeValue have e: "YearFromTime ?L = y" "MonthFromTime ?L = m - 1"
    "DateFromTime ?L = d" "HourFromTime ?L = h" "MinFromTime ?L = mi" "SecFromTime ?L = sec"
    by simp_all
  from MonthFromTime_range [of ?L] DateFromTime_range [of ?L] time_ranges [of ?L]
  show ?thesis
    unfolding e calendar_valid_def by simp
qed

lemma parseDateTime_matched:
  assumes "datetime_pattern s Y M D W H Mi S"
  shows "parseDateTime tza s =
      (let sec = (case S of None \<Rightarrow> 0 | Some x \<Rightarrow> parseInt x);
           date = new_Date tza (parseInt Y) (parseInt M - 1) (parseInt D) (parseInt H)
                    (parseInt Mi) sec
       in if getFullYear tza date \<noteq> Some (parseInt Y) \<or>
             getMonth tza date \<noteq> Some (parseInt M - 1) \<or>
             getDate tza date \<noteq> Some (parseInt D) \<or>
             getHours tza date \<noteq> Some (parseInt H) \<or>
             getMinutes tza date \<noteq> Some (parseInt Mi) \<or>
             getSeconds tza date \<noteq> Some sec
          then Inl (Error (js ''Invalid datetime format: '' @ s))
          else Inr date)"
  using pattern_not_blank [OF assms] match_complete [OF assms]
  by (simp add: parseDateTime_def Let_def)

lemma parseDateTime_accepts:
  assumes offsets: "\<forall>t u. \<bar>tza t u\<bar> \<le> 86400000"
    and p: "datetime_pattern s Y M D W H Mi S"
    and y100: "100 \<le> parseInt Y"
    and valid: "calendar_valid (parseInt Y) (parseInt M) (parseInt D) (parseInt H) (parseInt Mi)
                  (case S of None \<Rightarrow> 0 | Some x \<Rightarrow> parseInt x)"
    and exists: "LocalTime tza (UTC tza (wallClock (parseInt Y) (parseInt M) (parseInt D)
                    (parseInt H) (parseInt Mi) (case S of None \<Rightarrow> 0 | Some x \<Rightarrow> parseInt x))) =
                 wallClock (parseInt Y) (parseInt M) (parseInt D) (parseInt H) (parseInt Mi)
                    (case S of None \<Rightarrow> 0 | Some x \<Rightarrow> parseInt x)"
  shows "parseDateTime tza s =
           Inr (TimeValue (UTC tza (wallClock (parseInt Y) (parseInt M) (parseInt D) (parseInt H)
                  (parseInt Mi) (case S of None \<Rightarrow> 0 | Some x \<Rightarrow> parseInt x))))"
proof -
  have y9999: "parseInt Y \<le> 9999"
    using p parseInt_4 [of Y] by (simp add: datetime_pattern_def)
  note pv = parse_valid [OF offsets y100 y9999 valid exists]
  show ?thesis
    unfolding parseDateTime_matched [OF p] Let_def
    by (simp only: pv(2-7)) (simp add: pv(1))
qed

lemma parseDateTime_rejects:
  assumes p: "datetime_pattern s Y M D W H Mi S"
    and invalid: "\<not> calendar_valid (parseInt Y) (parseInt M) (parseInt D) (parseInt H) (parseInt Mi)
                  (case S of None \<Rightarrow> 0 | Some x \<Rightarrow> parseInt x)"
  shows "parseDateTime tza s = Inl (Error (js ''Invalid datetime format: '' @ s))"
proof -
  let ?sec = "case S of None \<Rightarrow> 0 | Some x \<Rightarrow> parseInt x"
  let ?date = "new_Date tza (parseInt Y) (parseInt M - 1) (parseInt D) (parseInt H) (parseInt Mi) ?sec"
  have "getFullYear tza ?date \<noteq> Some (parseInt Y) \<or>
        getMonth tza ?date \<noteq> Some (parseInt M - 1) \<or>
        getDate tza ?date \<noteq> Some (parseInt D) \<or>
        getHours tza ?date \<noteq> Some (parseInt H) \<or>
        getMinutes tza ?date \<noteq> Some (parseInt Mi) \<or>
        getSeconds tza ?date \<noteq> Some ?sec"
    using parse_getters_valid [of tza ?date "parseInt Y" "parseInt M" "parseInt D" "parseInt H"
        "parseInt Mi" ?sec] invalid
    by blast
  then show ?thesis
    unfolding parseDateTime_matched [OF p] Let_def by (simp only: if_True)
qed

text \<open>
  C5, as amended.  On a host whose zone offsets stay within a day: a string that
  matches the pattern (date and time separated by one or more white space characters)
  and whose numbers denote a year from 100 on, a date of the calendar and a time of day
  that exists as wall-clock time in the host's zone (as every time does in a zone with a
  fixed offset) is accepted, and the year, month, day, hours, minutes and seconds of the
  returned date are the numbers written; a matching string whose numbers denote no date
  or time (month 13, hour 25) is an error; and a string that does not match the pattern
  is an error.
\<close>

theorem parseDateTime_pattern_valid:
  assumes offsets: "\<forall>t u. \<bar>tza t u\<bar> \<le> 86400000"
  shows
   "(datetime_pattern s Y M D W H Mi S \<longrightarrow>
      (let y = parseInt Y; m = parseInt M; d = parseInt D; h = parseInt H; mi = parseInt Mi;
           sec = (case S of None \<Rightarrow> 0 | Some x \<Rightarrow> parseInt x)
       in
         (100 \<le> y \<and> calendar_valid y m d h mi sec \<and>
          LocalTime tza (UTC tza (wallClock y m d h mi sec)) = wallClock y m d h mi sec \<longrightarrow>
            (\<exists>date. parseDateTime tza s = Inr date \<and>
               getFullYear tza date = Some y \<and> getMonth tza date = Some (m - 1) \<and>
               getDate tza date = Some d \<and> getHours tza date = Some h \<and>
               getMinutes tza date = Some mi \<and> getSeconds tza date = Some sec)) \<and>
         (\<not> calendar_valid y m d h mi sec \<longrightarrow>
            parseDateTime tza s = Inl (Error (js ''Invalid datetime format: '' @ s))))) \<and>
    ((\<forall>Y M D W H Mi S. \<not> datetime_pattern s Y M D W H Mi S) \<longrightarrow>
       (\<exists>msg. parseDateTime tza s = Inl (Error msg)))"
proof (intro conjI impI)
  assume "\<forall>Y M D W H Mi S. \<not> datetime_pattern s Y M D W H Mi S"
  then have "match_regex s = None" by (simp add: match_regex_None_iff)
  then show "\<exists>msg. parseDateTime tza s = Inl (Error msg)"
    by (simp add: parseDateTime_def)
next
  assume p: "datetime_pattern s Y M D W H Mi S"
  define y m d h mi sec where "y = parseInt Y" and "m = parseInt M" and "d = parseInt D"
    and "h = parseInt H" and "mi = parseInt Mi"
    and "sec = (case S of None \<Rightarrow> 0 | Some x \<Rightarrow> parseInt x)"
  note defs = y_def m_def d_def h_def mi_def sec_def
  have y9999: "y \<le> 9999"
    using p parseInt_4 [of Y] by (simp add: datetime_pattern_def y_def)
  have acc: "\<exists>date. parseDateTime tza s = Inr date \<and>
               getFullYear tza date = Some y \<and> getMonth tza date = Some (m - 1) \<and>
               getDate tza date = Some d \<and> getHours tza date = Some h \<and>
               getMinutes tza date = Some mi \<and> getSeconds tza date = Some sec"
    if y100: "100 \<le> y" and valid: "calendar_valid y m d h mi sec"
      and exists: "LocalTime tza (UTC tza (wallClock y m d h mi sec)) = wallClock y m d h mi sec"
  proof -
    note pv = parse_valid [OF offsets y100 y9999 valid exists]
    have "parseDateTime tza s = Inr (new_Date tza y (m - 1) d h mi sec)"
      using parseDateTime_accepts [OF offsets p y100 [unfolded defs] valid [unfolded defs]
          exists [unfolded defs]] pv(1)
      by (simp add: defs)
    with pv(2-7) show ?thesis by simp
  qed
  have rej: "parseDateTime tza s = Inl (Error (js ''Invalid datetime format: '' @ s))"
    if "\<not> calendar_valid y m d h mi sec"
    using parseDateTime_rejects [OF p that [unfolded defs]] .
  show "let y = parseInt Y; m = parseInt M; d = parseInt D; h = parseInt H; mi = parseInt Mi;
           sec = (case S of None \<Rightarrow> 0 | Some x \<Rightarrow> parseInt x)
       in
         (100 \<le> y \<and> calendar_valid y m d h mi sec \<and>
          LocalTime tza (UTC tza (wallClock y m d h mi sec)) = wallClock y m d h mi sec \<longrightarrow>
            (\<exists>date. parseDateTime tza s = Inr date \<and>
               getFullYear tza date = Some y \<and> getMonth tza date = Some (m - 1) \<and>
               getDate tza date = Some d \<and> getHours tza date = Some h \<and>
               getMinutes tza date = Some mi \<and> getSeconds tza date = Some sec)) \<and>
         (\<not> calendar_valid y m d h mi sec \<longrightarrow>
            parseDateTime tza s = Inl (Error (js ''Invalid datetime format: '' @ s)))"
    unfolding Let_def defs [symmetric] using acc rej by blast
qed

text \<open>
  C6, as amended.  The checks run in the order columns, start, end, person in charge and
  the first that fails is the one reported: a row of fewer than 7 fields fails with the
  insufficient-columns message; otherwise a rejected start fails with the start datetime
  message; otherwise a rejected end fails with the end datetime message; otherwise a
  person in charge ID shorter than 3 fails with the person in charge ID message;
  otherwise the result is the schedule made of the first seven fields in order.
\<close>

theorem validateScheduleRow_checks:
  "(length row < 7 \<longrightarrow>
      validateScheduleRow tza row =
        Inl (Error (js ''Invalid row data: insufficient columns (expected 7, got '' @
                    string_of_nat (length row) @ js '')''))) \<and>
   (7 \<le> length row \<and> parseDateTime tza (row ! 2) = Inl e \<longrightarrow>
      validateScheduleRow tza row =
        Inl (Error (js ''Invalid start datetime: '' @ error_message e))) \<and>
   (7 \<le> length row \<and> parseDateTime tza (row ! 2) = Inr start \<and>
    parseDateTime tza (row ! 3) = Inl e \<longrightarrow>
      validateScheduleRow tza row =
        Inl (Error (js ''Invalid end datetime: '' @ error_message e))) \<and>
   (7 \<le> length row \<and> parseDateTime tza (row ! 2) = Inr start \<and>
    parseDateTime tza (row ! 3) = Inr end' \<and> length (row ! 4) < 3 \<longrightarrow>
      validateScheduleRow tza row =
        Inl (Error (js ''Invalid person in charge ID: '' @ row ! 4))) \<and>
   (7 \<le> length row \<and> parseDateTime tza (row ! 2) = Inr start \<and>
    parseDateTime tza (row ! 3) = Inr end' \<and> 3 \<le> length (row ! 4) \<longrightarrow>
      validateScheduleRow tza row =
        Inr \<lparr>productName = row ! 0, environmentName = row ! 1,
             startDateTime = start, endDateTime = end',
             personInChargeId = row ! 4, personInChargeName = row ! 5, remarks = row ! 6\<rparr>)"
  by (simp add: validateScheduleRow_def isValidSlackUserId_def Let_def)

subsection \<open>Concrete rows and strings\<close>

lemma take_digits_numeral:
  "take_digits 2 s = take_digits (Suc (Suc 0)) s"
  "take_digits 4 s = take_digits (Suc (Suc (Suc (Suc 0)))) s"
  by (simp_all add: numeral_eq_Suc)

lemmas regex_eval = match_regex_def digits4_def digits12_def literal_def spaces_def
  take_digits_numeral isDigit_def isWhiteSpace_def

lemma zone_fixed: "\<forall>t u. utcZone t u = 0" "\<forall>t u. tokyoZone t u = 32400000"
  by (simp_all add: utcZone_def tokyoZone_def)

lemma zone_offsets:
  "\<forall>t u. \<bar>utcZone t u\<bar> \<le> 86400000" "\<forall>t u. \<bar>tokyoZone t u\<bar> \<le> 86400000"
  "\<forall>t u. \<bar>easternZone t u\<bar> \<le> 86400000"
  by (simp_all add: utcZone_def tokyoZone_def easternZone_def)

lemma MakeDay_examples:
  "MakeDay 2024 0 15 = 19737" "MakeDay 2024 2 10 = 19792" "MakeDay 1950 0 1 = - 7305"
  by (simp_all add: MakeDay_def DayFromYear_def DaysInYear_def monthStart_def)

lemma wallClock_20240115:
  "wallClock 2024 1 15 h mi 0 = 1705276800000 + h * 3600000 + mi * 60000"
  by (simp add: wallClock_def MakeDate_def MakeDay_examples MakeTime_def)

lemma pattern_tab_space: "datetime_pattern (js ''2024/01/15'' @ [9, 32] @ js ''10:00'')
     (js ''2024'') (js ''01'') (js ''15'') [9, 32] (js ''10'') (js ''00'') None"
  by (simp add: datetime_pattern_def one_or_two_digits_def isDigit_def isWhiteSpace_def)

lemma parseDateTime_tab_space: "parseDateTime utcZone (js ''2024/01/15'' @ [9, 32] @ js ''10:00'') = Inr (TimeValue 1705312800000)"
proof -
  have v: "calendar_valid (parseInt (js ''2024'')) (parseInt (js ''01'')) (parseInt (js ''15''))
     (parseInt (js ''10'')) (parseInt (js ''00'')) (case None of None \<Rightarrow> 0 | Some x \<Rightarrow> parseInt x)"
    by (simp add: calendar_valid_def parseInt_def DaysInMonth_def)
  have y: "100 \<le> parseInt (js ''2024'')" by (simp add: parseInt_def)
  show ?thesis
    unfolding parseDateTime_accepts [OF zone_offsets(1) pattern_tab_space y v fixed_zone_exists [OF zone_fixed(1)]]
    by (simp add: parseInt_def wallClock_20240115 UTC_def utcZone_def)
qed

lemma parseDateTime_year_0050: "parseDateTime utcZone (js ''0050/01/01 00:00'') =
    Inl (Error (js ''Invalid datetime format: 0050/01/01 00:00''))"
proof -
  have m: "match_regex (js ''0050/01/01 00:00'') =
      Some (js ''0050'', js ''01'', js ''01'', js ''00'', js ''00'', None)"
    by (simp add: regex_eval)
  have d: "new_Date utcZone 50 0 1 0 0 0 = TimeValue (- 631152000000)"
    by (simp add: new_Date_def MakeDate_def MakeDay_examples MakeTime_def UTC_def utcZone_def
        TimeClip_def)
  have g: "YearFromTime (LocalTime utcZone (- 631152000000)) = 1950"
    by (simp add: LocalTime_def utcZone_def YearFromTime_def Day_def YearFromDay_def DayFromYear_def)
  show ?thesis
    using m by (simp add: parseDateTime_def trim_def isWhiteSpace_def parseInt_def d g)
qed

text \<open>
  In the zone whose clocks go forward at 02:00 on 2024-03-10, the time 02:30 of that day
  is a date of the calendar and a time of day, but it is no wall-clock time of the zone:
  the constructed date reads back as 03:30 and the string is rejected.
\<close>

lemma parseDateTime_skipped_hour:
  "calendar_valid 2024 3 10 2 30 0 \<and>
   parseDateTime easternZone (js ''2024/03/10 02:30'') =
     Inl (Error (js ''Invalid datetime format: 2024/03/10 02:30''))"
proof -
  have m: "match_regex (js ''2024/03/10 02:30'') =
      Some (js ''2024'', js ''03'', js ''10'', js ''02'', js ''30'', None)"
    by (simp add: regex_eval)
  have d: "new_Date easternZone 2024 2 10 2 30 0 = TimeValue 1710055800000"
    by (simp add: new_Date_def MakeDate_def MakeDay_examples MakeTime_def UTC_def easternZone_def
        TimeClip_def)
  have g: "HourFromTime (LocalTime easternZone 1710055800000) = 3"
    by (simp add: LocalTime_def easternZone_def HourFromTime_def)
  have "calendar_valid 2024 3 10 2 30 0"
    by (simp add: calendar_valid_def DaysInMonth_def)
  moreover have "parseDateTime easternZone (js ''2024/03/10 02:30'') =
     Inl (Error (js ''Invalid datetime format: 2024/03/10 02:30''))"
    using m by (simp add: parseDateTime_def trim_def isWhiteSpace_def parseInt_def d g)
  ultimately show ?thesis by simp
qed

lemma parse_bad: "parseDateTime tza (js ''bad'') = Inl (Error (js ''Invalid datetime format: bad''))"
  by (simp add: parseDateTime_def trim_def regex_eval)

lemma parse_worse: "parseDateTime tza (js ''worse'') = Inl (Error (js ''Invalid datetime format: worse''))"
  by (simp add: parseDateTime_def trim_def regex_eval)

lemma parse_1000: "parseDateTime utcZone (js ''2024/01/15 10:00'') = Inr (TimeValue 1705312800000)"
proof -
  have p: "datetime_pattern (js ''2024/01/15 10:00'')
     (js ''2024'') (js ''01'') (js ''15'') (js '' '') (js ''10'') (js ''00'') None"
    by (simp add: datetime_pattern_def one_or_two_digits_def isDigit_def isWhiteSpace_def)
  have v: "calendar_valid (parseInt (js ''2024'')) (parseInt (js ''01'')) (parseInt (js ''15''))
     (parseInt (js ''10'')) (parseInt (js ''00'')) (case None of None \<Rightarrow> 0 | Some x \<Rightarrow> parseInt x)"
    by (simp add: calendar_valid_def parseInt_def DaysInMonth_def)
  have y: "100 \<le> parseInt (js ''2024'')" by (simp add: parseInt_def)
  show ?thesis
    unfolding parseDateTime_accepts [OF zone_offsets(1) p y v fixed_zone_exists [OF zone_fixed(1)]]
    by (simp add: parseInt_def wallClock_20240115 UTC_def utcZone_def)
qed

lemma parse_1800: "parseDateTime utcZone (js ''2024/01/15 18:00'') = Inr (TimeValue 1705341600000)"
proof -
  have p: "datetime_pattern (js ''2024/01/15 18:00'')
     (js ''2024'') (js ''01'') (js ''15'') (js '' '') (js ''18'') (js ''00'') None"
    by (simp add: datetime_pattern_def one_or_two_digits_def isDigit_def isWhiteSpace_def)
  have v: "calendar_valid (parseInt (js ''2024'')) (parseInt (js ''01'')) (parseInt (js ''15''))
     (parseInt (js ''18'')) (parseInt (js ''00'')) (case None of None \<Rightarrow> 0 | Some x \<Rightarrow> parseInt x)"
    by (simp add: calendar_valid_def parseInt_def DaysInMonth_def)
  have y: "100 \<le> parseInt (js ''2024'')" by (simp add: parseInt_def)
  show ?thesis
    unfolding parseDateTime_accepts [OF zone_offsets(1) p y v fixed_zone_exists [OF zone_fixed(1)]]
    by (simp add: parseInt_def wallClock_20240115 UTC_def utcZone_def)
qed

theorem parseDateTime_pattern_valid_witness:
  "(\<exists>date. parseDateTime tokyoZone (js ''2024/01/15 10:00'') = Inr date \<and>
      getFullYear tokyoZone date = Some 2024 \<and> getMonth tokyoZone date = Some 0 \<and>
      getDate tokyoZone date = Some 15 \<and> getHours tokyoZone date = Some 10 \<and>
      getMinutes tokyoZone date = Some 0 \<and> getSeconds tokyoZone date = Some 0) \<and>
   parseDateTime tokyoZone (js ''2024/13/32 25:61'') =
     Inl (Error (js ''Invalid datetime format: 2024/13/32 25:61'')) \<and>
   (\<exists>msg. parseDateTime tokyoZone [] = Inl (Error msg))"
proof -
  note inst = parseDateTime_pattern_valid [OF zone_offsets(2)]
  have p1: "datetime_pattern (js ''2024/01/15 10:00'')
     (js ''2024'') (js ''01'') (js ''15'') (js '' '') (js ''10'') (js ''00'') None"
    by (simp add: datetime_pattern_def one_or_two_digits_def isDigit_def isWhiteSpace_def)
  have v1: "calendar_valid 2024 1 15 10 0 0"
    by (simp add: calendar_valid_def DaysInMonth_def)
  have e1: "LocalTime tokyoZone (UTC tokyoZone (wallClock 2024 1 15 10 0 0)) = wallClock 2024 1 15 10 0 0"
    by (rule fixed_zone_exists [OF zone_fixed(2)])
  have a: "\<exists>date. parseDateTime tokyoZone (js ''2024/01/15 10:00'') = Inr date \<and>
      getFullYear tokyoZone date = Some 2024 \<and> getMonth tokyoZone date = Some 0 \<and>
      getDate tokyoZone date = Some 15 \<and> getHours tokyoZone date = Some 10 \<and>
      getMinutes tokyoZone date = Some 0 \<and> getSeconds tokyoZone date = Some 0"
    using inst [of "js ''2024/01/15 10:00''" "js ''2024''" "js ''01''" "js ''15''" "js '' ''"
        "js ''10''" "js ''00''" None, THEN conjunct1] p1 v1 e1
    by (simp add: parseInt_def Let_def)
  have p2: "datetime_pattern (js ''2024/13/32 25:61'')
     (js ''2024'') (js ''13'') (js ''32'') (js '' '') (js ''25'') (js ''61'') None"
    by (simp add: datetime_pattern_def one_or_two_digits_def isDigit_def isWhiteSpace_def)
  have v2: "\<not> calendar_valid 2024 13 32 25 61 0"
    by (simp add: calendar_valid_def)
  have b: "parseDateTime tokyoZone (js ''2024/13/32 25:61'') =
     Inl (Error (js ''Invalid datetime format: 2024/13/32 25:61''))"
    using inst [of "js ''2024/13/32 25:61''" "js ''2024''" "js ''13''" "js ''32''" "js '' ''"
        "js ''25''" "js ''61''" None, THEN conjunct1] p2 v2
    by (simp add: parseInt_def Let_def)
  have "\<forall>Y M D W H Mi S. \<not> datetime_pattern [] Y M D W H Mi S"
    by (simp add: datetime_pattern_def)
  with inst [of "[]", THEN conjunct2] have c: "\<exists>msg. parseDateTime tokyoZone [] = Inl (Error msg)"
    by blast
  from a b c show ?thesis by blast
qed

text \<open>
  The claim as first stated fails twice.  A tab and a space between date and time are
  accepted, though the string is not of the form \<open>YYYY/MM/DD HH:MM\<close>; and
  \<open>0050/01/01 00:00\<close>, of that form and a date of the calendar, is rejected, because the
  constructor reads the year 50 as 1950.
\<close>

theorem parseDateTime_whitespace_and_year:
  "parseDateTime utcZone (js ''2024/01/15'' @ [9, 32] @ js ''10:00'') =
     Inr (TimeValue 1705312800000) \<and>
   parseDateTime utcZone (js ''0050/01/01 00:00'') =
     Inl (Error (js ''Invalid datetime format: 0050/01/01 00:00''))"
  using parseDateTime_tab_space parseDateTime_year_0050 by simp

theorem validateScheduleRow_checks_witness:
  "validateScheduleRow utcZone validRow =
     Inr \<lparr>productName = js ''web-app'', environmentName = js ''staging'',
          startDateTime = TimeValue 1705312800000, endDateTime = TimeValue 1705341600000,
          personInChargeId = js ''U1234ABCD'', personInChargeName = js ''John Doe'',
          remarks = js ''Feature testing''\<rparr> \<and>
   validateScheduleRow utcZone [js ''web-app'', js ''staging''] =
     Inl (Error (js ''Invalid row data: insufficient columns (expected 7, got 2)'')) \<and>
   validateScheduleRow utcZone (validRow [2 := js ''bad'']) =
     Inl (Error (js ''Invalid start datetime: Invalid datetime format: bad'')) \<and>
   validateScheduleRow utcZone (validRow [3 := js ''bad'']) =
     Inl (Error (js ''Invalid end datetime: Invalid datetime format: bad'')) \<and>
   validateScheduleRow utcZone (validRow [4 := js ''ab'']) =
     Inl (Error (js ''Invalid person in charge ID: ab''))"
proof -
  note inst = validateScheduleRow_checks [where tza = utcZone]
  have a: "validateScheduleRow utcZone validRow =
     Inr \<lparr>productName = js ''web-app'', environmentName = js ''staging'',
          startDateTime = TimeValue 1705312800000, endDateTime = TimeValue 1705341600000,
          personInChargeId = js ''U1234ABCD'', personInChargeName = js ''John Doe'',
          remarks = js ''Feature testing''\<rparr>"
    using inst [of validRow _ "TimeValue 1705312800000" "TimeValue 1705341600000"]
      parse_1000 parse_1800
    by (simp add: validRow_def)
  have b: "validateScheduleRow utcZone [js ''web-app'', js ''staging''] =
     Inl (Error (js ''Invalid row data: insufficient columns (expected 7, got 2)''))"
    using inst [of "[js ''web-app'', js ''staging'']"]
    by (simp add: string_of_nat.simps)
  have c: "validateScheduleRow utcZone (validRow [2 := js ''bad'']) =
     Inl (Error (js ''Invalid start datetime: Invalid datetime format: bad''))"
    using inst [of "validRow [2 := js ''bad'']" "Error (js ''Invalid datetime format: bad'')"]
      parse_bad [of utcZone]
    by (simp add: validRow_def)
  have d: "validateScheduleRow utcZone (validRow [3 := js ''bad'']) =
     Inl (Error (js ''Invalid end datetime: Invalid datetime format: bad''))"
    using inst [of "validRow [3 := js ''bad'']" "Error (js ''Invalid datetime format: bad'')"
        "TimeValue 1705312800000"]
      parse_bad [of utcZone] parse_1000
    by (simp add: validRow_def)
  have e: "validateScheduleRow utcZone (validRow [4 := js ''ab'']) =
     Inl (Error (js ''Invalid person in charge ID: ab''))"
    using inst [of "validRow [4 := js ''ab'']" _ "TimeValue 1705312800000" "TimeValue 1705341600000"]
      parse_1000 parse_1800
    by (simp add: validRow_def)
  from a b c d e show ?thesis by blast
qed

text \<open>
  The claim as first stated fails on a row of seven fields whose start and end are both
  rejected and whose person in charge ID has two characters: the error names the start
  datetime only, neither the end datetime nor the person in charge ID.
\<close>

theorem validateScheduleRow_reports_first_failure:
  "length badRow = 7 \<and>
   parseDateTime utcZone (badRow ! 3) = Inl (Error (js ''Invalid datetime format: worse'')) \<and>
   length (badRow ! 4) = 2 \<and>
   validateScheduleRow utcZone badRow =
     Inl (Error (js ''Invalid start datetime: Invalid datetime format: bad''))"
  using parse_bad [of utcZone] parse_worse [of utcZone]
  by (simp add: validateScheduleRow_def badRow_def)

end
